theory Spec2Isabelle
  imports Main
begin

section \<open>JavaScript values used by the sources\<close>

text \<open>
  A value of TypeScript type \<open>string | undefined\<close> is a \<open>string option\<close>, \<open>None\<close> being
  \<open>undefined\<close>. The test \<open>!s\<close> of the sources holds for \<open>undefined\<close> and for the empty
  string, and for nothing else.
\<close>

definition falsy :: "string option \<Rightarrow> bool" where
  "falsy s = (case s of None \<Rightarrow> True | Some t \<Rightarrow> t = [])"

text \<open>
  \<open>a[i]\<close> on a JavaScript array: \<open>undefined\<close> when \<open>i\<close> is not an index of \<open>a\<close>.
\<close>

definition at_index :: "'a list \<Rightarrow> nat \<Rightarrow> 'a option" where
  "at_index xs i = (if i < length xs then Some (xs ! i) else None)"

text \<open>
  \<open>s.split(sep)\<close> for a one-character separator: the pieces between the separators, so
  a string with \<open>n\<close> separators has \<open>n + 1\<close> pieces, and the empty string has the one
  piece \<open>""\<close>.
\<close>

fun js_split :: "char \<Rightarrow> string \<Rightarrow> string list" where
  "js_split sep [] = [[]]"
| "js_split sep (c # cs) =
     (let rest = js_split sep cs in
      if c = sep then [] # rest else (c # hd rest) # tl rest)"

section \<open>Errors\<close>

text \<open>
  The sources throw \<open>new Error(localize(key, message))\<close>; an error is named by its
  localization key. \<open>TypeError\<close> is the exception JavaScript raises when a property of
  \<open>undefined\<close> is read, \<open>MongoError\<close> a rejection by the data-plane driver.
\<close>

datatype error =
    NoAzureAccountFound
  | FailRetrieveArmEndpoint
  | FailRetrieveArmToken
  | AzureResourceNotFound
  | NoConnectionStringsFound
  | MissingConnectionString
  | TypeError
  | MongoError
  | FailRetrieveCredentials
  | FailRetrieveConnectionString
  | FailConnectTo

section \<open>The resource id parser\<close>

text \<open>
  \<open>parsedAzureResourceId\<close> (appContext.ts and, word for word, AbstractArmService.ts)
  splits the id at \<open>/\<close> and reads the pieces 2, 4 and 8. It has no check of its own
  (the source says \<open>TODO Add error handling\<close>): a piece that is not there is \<open>undefined\<close>.
\<close>

record parsedResourceId =
  subscriptionId :: "string option"
  resourceGroup :: "string option"
  dbAccountName :: "string option"

definition parsedAzureResourceId :: "string \<Rightarrow> parsedResourceId" where
  "parsedAzureResourceId azureResourceId =
     (let parsed = js_split (CHR ''/'') azureResourceId in
      \<lparr> subscriptionId = at_index parsed 2,
        resourceGroup = at_index parsed 4,
        dbAccountName = at_index parsed 8 \<rparr>)"

section \<open>The collaborators of the federated pipeline\<close>

text \<open>
  What the pipeline reads from the host is a record of answers. An account of the host's
  identity store has its \<open>key.accountId\<close> and the endpoints of
  \<open>properties?.providerSettings?.settings\<close>; a security token has a value and an optional
  scheme; a row of the resource graph has a subscription id and the resource's id.
\<close>

record account =
  accountId :: string
  armEndpoint :: "string option"
  portalEndpoint :: "string option"

record azureToken =
  token :: string
  tokenType :: "string option"

datatype credentials = TokenCredentials string "string option"

record azureResource =
  resource_subscriptionId :: string
  resource_id :: string

text \<open>
  A management client is the triple it is constructed from: credentials, subscription
  id and base URI.
\<close>

datatype managementClient = CosmosDBManagementClient credentials "string option" string

text \<open>
  \<open>DatabaseAccountConnectionString\<close> of the management SDK has two optional fields. A
  \<open>ConnectionStringPick\<close> is that type intersected with the quick pick's item type, of which
  the source sets \<open>label\<close> and \<open>picked\<close>.
\<close>

record databaseAccountConnectionString =
  connectionString :: "string option"
  description :: "string option"

record connectionStringPick = databaseAccountConnectionString +
  label :: string
  picked :: bool

text \<open>
  The world of one pipeline run:
  \<^item> \<open>getAllAccounts\<close>: the accounts \<open>azdata.accounts.getAllAccounts()\<close> resolves to;
  \<^item> \<open>getAccountSecurityToken w a t\<close>: the token for account \<open>a\<close> and tenant \<open>t\<close>, if any;
  \<^item> \<open>resources w c n\<close>: the rows (\<open>result.data\<close>) of the resource-graph query for database
    accounts named \<open>n\<close>, asked with credentials \<open>c\<close>;
  \<^item> \<open>listConnectionStrings w client g n\<close>: the field \<open>connectionStrings\<close> of the management
    plane's answer for resource group \<open>g\<close> and account \<open>n\<close>;
  \<^item> \<open>showQuickPick w k picks\<close>: what the human answers to the \<open>k\<close>-th prompt of the run
    (counted from 0) showing \<open>picks\<close>; \<open>None\<close> is a dismissed prompt.

  The answers are values: a host call that rejects is not modelled. The pipeline has
  no \<open>catch\<close>, so such a run would end there with the host's error.
\<close>

record world =
  getAllAccounts :: "account list"
  getAccountSecurityToken :: "account \<Rightarrow> string \<Rightarrow> azureToken option"
  resources :: "credentials \<Rightarrow> string \<Rightarrow> azureResource list"
  listConnectionStrings ::
    "managementClient \<Rightarrow> string option \<Rightarrow> string \<Rightarrow> databaseAccountConnectionString list option"
  showQuickPick :: "nat \<Rightarrow> connectionStringPick list \<Rightarrow> connectionStringPick option"

text \<open>
  Every call that leaves the pipeline is written to a trace, in the order of the source's
  statements.
\<close>

datatype event =
    ShowStatusBarItem string
  | HideStatusBarItem
  | GetAllAccounts
  | GetAccountSecurityToken string string
  | NewResourceGraphClient
  | ResourcesQuery string
  | NewCosmosDBManagementClient "string option" string
  | ListConnectionStrings "string option" string
  | ShowQuickPick "connectionStringPick list"

text \<open>
  An asynchronous function of the source is a function from the trace so far to its
  outcome (\<open>Inl\<close> the error it throws) and the trace after it.
\<close>

type_synonym 'a io = "event list \<Rightarrow> (error + 'a) \<times> event list"

definition ret :: "'a \<Rightarrow> 'a io" where
  "ret x tr = (Inr x, tr)"

definition throw :: "error \<Rightarrow> 'a io" where
  "throw e tr = (Inl e, tr)"

definition emit :: "event \<Rightarrow> unit io" where
  "emit e tr = (Inr (), tr @ [e])"

definition bind_io :: "'a io \<Rightarrow> ('a \<Rightarrow> 'b io) \<Rightarrow> 'b io" where
  "bind_io m f tr = (case m tr of (Inl e, tr') \<Rightarrow> (Inl e, tr') | (Inr x, tr') \<Rightarrow> f x tr')"

section \<open>The federated pipeline (appContext.ts, AbstractArmService.ts)\<close>

text \<open>
  \<open>retrieveAzureAccount\<close>, \<open>retrieveAzureToken\<close>, \<open>retrieveResourceInfofromArm\<close>,
  \<open>retrieveResourceId\<close> and \<open>createArmClient\<close> are the same text in both files. Line
  numbers of appContext.ts are those of its current text (lines 1 to 933).
\<close>

definition retrieveAzureAccount :: "world \<Rightarrow> string \<Rightarrow> account io" where
  "retrieveAzureAccount w accId =
     bind_io (emit (ShowStatusBarItem ''retrievingAzureAccount'')) (\<lambda>_.
     bind_io (emit GetAllAccounts) (\<lambda>_.
     let accounts = filter (\<lambda>a. accountId a = accId) (getAllAccounts w) in
     bind_io (emit HideStatusBarItem) (\<lambda>_.
     if length accounts < 1 then throw NoAzureAccountFound
     else ret (accounts ! 0))))"

definition retrieveAzureToken :: "world \<Rightarrow> string \<Rightarrow> string \<Rightarrow> azureToken io" where
  "retrieveAzureToken w tenantId azureAccountId =
     bind_io (retrieveAzureAccount w azureAccountId) (\<lambda>azureAccount.
     bind_io (emit (ShowStatusBarItem ''retrievingAzureToken'')) (\<lambda>_.
     bind_io (emit (GetAccountSecurityToken azureAccountId tenantId)) (\<lambda>_.
     bind_io (emit HideStatusBarItem) (\<lambda>_.
     case getAccountSecurityToken w azureAccount tenantId of
       None \<Rightarrow> throw FailRetrieveArmToken
     | Some azureToken \<Rightarrow> ret azureToken))))"

definition retrieveResourceInfofromArm ::
    "world \<Rightarrow> string \<Rightarrow> credentials \<Rightarrow> azureResource option io" where
  "retrieveResourceInfofromArm w cosmosDbAccountName creds =
     bind_io (emit NewResourceGraphClient) (\<lambda>_.
     bind_io (emit (ResourcesQuery cosmosDbAccountName)) (\<lambda>_.
     ret (at_index (resources w creds cosmosDbAccountName) 0)))"

text \<open>
  The branch \<open>if (!azureResourceId) { ... }\<close> that three functions share: with credentials
  in hand, ask the resource graph and take the first row's id, or throw.
\<close>

definition locateResourceId :: "world \<Rightarrow> string \<Rightarrow> credentials \<Rightarrow> string io" where
  "locateResourceId w cosmosDbAccountName creds =
     bind_io (retrieveResourceInfofromArm w cosmosDbAccountName creds) (\<lambda>azureResource.
     case azureResource of
       None \<Rightarrow> throw AzureResourceNotFound
     | Some r \<Rightarrow> ret (resource_id r))"

definition retrieveResourceId ::
    "world \<Rightarrow> string \<Rightarrow> string \<Rightarrow> string option \<Rightarrow> string \<Rightarrow> string io" where
  "retrieveResourceId w azureAccountId azureTenantId azureResourceId cosmosDbAccountName =
     (if falsy azureResourceId then
        bind_io (retrieveAzureToken w azureTenantId azureAccountId) (\<lambda>azureToken.
        let creds = TokenCredentials (token azureToken) (tokenType azureToken) in
        locateResourceId w cosmosDbAccountName creds)
      else ret (case azureResourceId of Some s \<Rightarrow> s | None \<Rightarrow> []))"

definition createArmClient ::
    "world \<Rightarrow> string \<Rightarrow> string \<Rightarrow> string option \<Rightarrow> string \<Rightarrow> managementClient io" where
  "createArmClient w azureAccountId azureTenantId azureResourceId cosmosDbAccountName =
     bind_io (retrieveAzureAccount w azureAccountId) (\<lambda>azureAccount.
     if falsy (armEndpoint azureAccount) then throw FailRetrieveArmEndpoint
     else
       let endpoint = (case armEndpoint azureAccount of Some s \<Rightarrow> s | None \<Rightarrow> []) in
       bind_io (retrieveAzureToken w azureTenantId azureAccountId) (\<lambda>azureToken.
       let creds = TokenCredentials (token azureToken) (tokenType azureToken) in
       bind_io (if falsy azureResourceId then locateResourceId w cosmosDbAccountName creds
                else ret (case azureResourceId of Some s \<Rightarrow> s | None \<Rightarrow> [])) (\<lambda>resId.
       let sub = subscriptionId (parsedAzureResourceId resId) in
       bind_io (emit (NewCosmosDBManagementClient sub endpoint)) (\<lambda>_.
       ret (CosmosDBManagementClient creds sub endpoint)))))"

text \<open>
  Lines 564 to 576 of appContext.ts (166 to 183 of AbstractArmService.ts): build the
  client, resolve the resource id again, and list the account's connection strings.
\<close>

definition fetchConnectionStrings ::
    "world \<Rightarrow> string \<Rightarrow> string \<Rightarrow> string option \<Rightarrow> string \<Rightarrow>
     databaseAccountConnectionString list option io" where
  "fetchConnectionStrings w azureAccountId azureTenantId azureResourceId cosmosDbAccountName =
     bind_io (createArmClient w azureAccountId azureTenantId azureResourceId cosmosDbAccountName)
       (\<lambda>client.
     bind_io (retrieveResourceId w azureAccountId azureTenantId azureResourceId cosmosDbAccountName)
       (\<lambda>resId.
     let rg = resourceGroup (parsedAzureResourceId resId) in
     bind_io (emit (ShowStatusBarItem ''retrievingConnectionString'')) (\<lambda>_.
     bind_io (emit (ListConnectionStrings rg cosmosDbAccountName)) (\<lambda>_.
     bind_io (emit HideStatusBarItem) (\<lambda>_.
     ret (listConnectionStrings w client rg cosmosDbAccountName))))))"

text \<open>
  Lines 582 to 589 of appContext.ts: one pick per connection string, labelled with the
  description and the account name, the first one marked as picked.
\<close>

definition toPick :: "string \<Rightarrow> nat \<times> databaseAccountConnectionString \<Rightarrow> connectionStringPick" where
  "toPick cosmosDbAccountName ic =
     \<lparr> connectionString = connectionString (snd ic),
       description = None,
       label = (case description (snd ic) of Some d \<Rightarrow> d | None \<Rightarrow> [])
                 @ '' ('' @ cosmosDbAccountName @ '')'',
       picked = (fst ic = 0) \<rparr>"

text \<open>
  Lines 591 to 604: the loop that enforces a choice. \<open>PICK_MAX_ATTEMPTS\<close> is imported from
  \<open>./constant\<close>, which is not among the sources, so the bound is a parameter. A pick is an
  object, so \<open>!connectionStringPick\<close> holds exactly when nothing is picked yet; the array
  \<open>connectionStringsPicks\<close> is an object too, so the second conjunct of the loop's test is
  always true.
\<close>

function enforceChoice ::
    "world \<Rightarrow> nat \<Rightarrow> connectionStringPick list \<Rightarrow> connectionStringPick option \<Rightarrow> nat \<Rightarrow>
     connectionStringPick option io" where
  "enforceChoice w PICK_MAX_ATTEMPTS picks pick attempts tr =
     (if pick = None \<and> length picks > 0 \<and> attempts < PICK_MAX_ATTEMPTS
      then enforceChoice w PICK_MAX_ATTEMPTS picks (showQuickPick w attempts picks)
             (attempts + 1) (tr @ [ShowQuickPick picks])
      else (Inr pick, tr))"
  by pat_completeness auto
termination
  by (relation "measure (\<lambda>(w, m, picks, pick, attempts, tr). m - attempts)") auto

declare enforceChoice.simps [simp del]

text \<open>Lines 578 to 609 of appContext.ts: from the listing to the connection string.\<close>

definition chooseConnectionString ::
    "world \<Rightarrow> nat \<Rightarrow> string \<Rightarrow> databaseAccountConnectionString list option \<Rightarrow> string io" where
  "chooseConnectionString w PICK_MAX_ATTEMPTS cosmosDbAccountName response =
     (case response of
        None \<Rightarrow> throw NoConnectionStringsFound
      | Some css \<Rightarrow>
          let picks = map (toPick cosmosDbAccountName) (enumerate 0 css) in
          bind_io (enforceChoice w PICK_MAX_ATTEMPTS picks None 0) (\<lambda>pick.
          case pick of
            None \<Rightarrow> throw MissingConnectionString
          | Some p \<Rightarrow>
              if falsy (connectionString p) then throw MissingConnectionString
              else ret (case connectionString p of Some s \<Rightarrow> s | None \<Rightarrow> [])))"

definition retrieveConnectionStringFromArm ::
    "world \<Rightarrow> nat \<Rightarrow> string \<Rightarrow> string \<Rightarrow> string option \<Rightarrow> string \<Rightarrow> string io" where
  "retrieveConnectionStringFromArm w PICK_MAX_ATTEMPTS azureAccountId azureTenantId azureResourceId
       cosmosDbAccountName =
     bind_io (fetchConnectionStrings w azureAccountId azureTenantId azureResourceId
                cosmosDbAccountName)
       (chooseConnectionString w PICK_MAX_ATTEMPTS cosmosDbAccountName)"

text \<open>
  Lines 185 to 195 of AbstractArmService.ts: the service takes the first connection
  string and asks nobody. Reading \<open>connectionStrings[0].connectionString\<close> of an empty
  array is a read of a property of \<open>undefined\<close>.
\<close>

definition firstConnectionString :: "databaseAccountConnectionString list option \<Rightarrow> string io" where
  "firstConnectionString response =
     (case response of
        None \<Rightarrow> throw NoConnectionStringsFound
      | Some css \<Rightarrow>
          (case at_index css 0 of
             None \<Rightarrow> throw TypeError
           | Some cs \<Rightarrow>
               if falsy (connectionString cs) then throw MissingConnectionString
               else ret (case connectionString cs of Some s \<Rightarrow> s | None \<Rightarrow> [])))"

definition armService_retrieveConnectionStringFromArm ::
    "world \<Rightarrow> string \<Rightarrow> string \<Rightarrow> string option \<Rightarrow> string \<Rightarrow> string io" where
  "armService_retrieveConnectionStringFromArm w azureAccountId azureTenantId azureResourceId
       cosmosDbAccountName =
     bind_io (fetchConnectionStrings w azureAccountId azureTenantId azureResourceId
                cosmosDbAccountName)
       firstConnectionString"

section \<open>Reading a trace\<close>

text \<open>
  The events of the Resource Locator (the resource-graph client and its query), and the
  construction of a management-plane client.
\<close>

fun is_locator :: "event \<Rightarrow> bool" where
  "is_locator NewResourceGraphClient = True"
| "is_locator (ResourcesQuery n) = True"
| "is_locator other = False"

fun is_clientConstruction :: "event \<Rightarrow> bool" where
  "is_clientConstruction (NewCosmosDBManagementClient sub endpoint) = True"
| "is_clientConstruction other = False"

text \<open>
  \<open>appends P m\<close>: whatever the trace before, \<open>m\<close> only adds events to its end, and every
  event it adds satisfies \<open>P\<close>.
\<close>

definition appends :: "(event \<Rightarrow> bool) \<Rightarrow> 'a io \<Rightarrow> bool" where
  "appends P m = (\<forall>tr. \<exists>evs. snd (m tr) = tr @ evs \<and> list_all P evs)"

section \<open>An example world\<close>

text \<open>
  One registered account with an ARM endpoint, a token for every tenant, a resource graph
  that knows no database account, and a management plane that answers every listing
  with \<open>listing\<close>; the human at the quick pick is \<open>human\<close>.
\<close>

definition exampleResourceId :: string where
  "exampleResourceId =
     ''/subscriptions/sub1/resourceGroups/rg1/providers/Microsoft.DocumentDB/databaseAccounts/acct1''"

definition exampleWorld ::
    "databaseAccountConnectionString list option \<Rightarrow>
     (nat \<Rightarrow> connectionStringPick list \<Rightarrow> connectionStringPick option) \<Rightarrow> world" where
  "exampleWorld listing human =
     \<lparr> getAllAccounts =
         [\<lparr> accountId = ''acc1'', armEndpoint = Some ''https://management.azure.com'',
            portalEndpoint = Some ''https://portal.azure.com'' \<rparr>],
       getAccountSecurityToken = (\<lambda>a t. Some \<lparr> token = ''tok1'', tokenType = Some ''Bearer'' \<rparr>),
       resources = (\<lambda>c n. []),
       listConnectionStrings = (\<lambda>client g n. listing),
       showQuickPick = human \<rparr>"

definition primaryKey :: databaseAccountConnectionString where
  "primaryKey = \<lparr> connectionString = Some ''mongodb://primary'', description = Some ''Primary'' \<rparr>"

definition secondaryKey :: databaseAccountConnectionString where
  "secondaryKey =
     \<lparr> connectionString = Some ''mongodb://secondary'', description = Some ''Secondary'' \<rparr>"

text \<open>The trace of the example's pipeline up to and including the listing.\<close>

definition exampleTrace :: "event list" where
  "exampleTrace =
     [ShowStatusBarItem ''retrievingAzureAccount'', GetAllAccounts, HideStatusBarItem,
      ShowStatusBarItem ''retrievingAzureAccount'', GetAllAccounts, HideStatusBarItem,
      ShowStatusBarItem ''retrievingAzureToken'', GetAccountSecurityToken ''acc1'' ''tenant1'',
      HideStatusBarItem,
      NewCosmosDBManagementClient (Some ''sub1'') ''https://management.azure.com'',
      ShowStatusBarItem ''retrievingConnectionString'',
      ListConnectionStrings (Some ''rg1'') ''acct1'', HideStatusBarItem]"

section \<open>The connection registry (class AppContext, appContext.ts)\<close>

text \<open>
  A \<open>MongoClient\<close> object is known by its identity: the number of client objects the
  driver had created before it. The data-plane driver is a record of answers:
  whether \<open>MongoClient.connect\<close> resolves for a connection string, and what the calls on a
  client resolve to or reject with.
\<close>

type_synonym mongoClient = nat

record databaseInfo =
  name :: string
  sizeOnDisk :: "nat option"

record mongo =
  connectResolves :: "string \<Rightarrow> bool"
  adminListDatabases :: "mongoClient \<Rightarrow> error + databaseInfo list"
  collections :: "mongoClient \<Rightarrow> string \<Rightarrow> error + string list"
  dropDatabase :: "mongoClient \<Rightarrow> string \<Rightarrow> error + bool"
  dropCollection :: "mongoClient \<Rightarrow> string \<Rightarrow> string \<Rightarrow> error + bool"
  createCollection :: "mongoClient \<Rightarrow> string option \<Rightarrow> string \<Rightarrow> error + string"
  close :: "mongoClient \<Rightarrow> error + unit"

text \<open>
  What an \<open>AppContext\<close> does to its map and to the driver is written to a trace, in the
  order of the source's statements.
\<close>

datatype mongoEvent =
    MongoClientConnect string
  | ConsoleError
  | MapSet string mongoClient
  | MapDelete string
  | ClientClose mongoClient
  | AdminListDatabases mongoClient
  | DbCollections mongoClient string
  | DbDropDatabase mongoClient string
  | DbDropCollection mongoClient string string
  | DbCreateCollection mongoClient "string option" string

text \<open>
  The state: the private map \<open>_mongoClients\<close>, the number of client objects created so
  far, the clients on which \<open>close()\<close> was called, and the trace.
\<close>

record appContext =
  mongoClients :: "string \<rightharpoonup> mongoClient"
  created :: nat
  closedClients :: "mongoClient set"
  calls :: "mongoEvent list"

definition newAppContext :: appContext where
  "newAppContext = \<lparr> mongoClients = Map.empty, created = 0, closedClients = {}, calls = [] \<rparr>"

text \<open>
  \<open>connect\<close> (lines 84 to 94): everything is inside the \<open>try\<close>, and the \<open>catch\<close> logs the
  error and returns \<open>undefined\<close>.
\<close>

definition connect ::
    "mongo \<Rightarrow> string \<Rightarrow> string \<Rightarrow> appContext \<Rightarrow> mongoClient option \<times> appContext" where
  "connect d server connStr st =
     (let st1 = st\<lparr> calls := calls st @ [MongoClientConnect connStr] \<rparr> in
      if connectResolves d connStr then
        let client = created st1 in
        (Some client,
         st1\<lparr> created := Suc client,
              mongoClients := (mongoClients st1)(server \<mapsto> client),
              calls := calls st1 @ [MapSet server client] \<rparr>)
      else (None, st1\<lparr> calls := calls st1 @ [ConsoleError] \<rparr>))"

definition hasConnection :: "appContext \<Rightarrow> string \<Rightarrow> bool" where
  "hasConnection st server = (mongoClients st server \<noteq> None)"

text \<open>
  The four data-access methods (lines 100 to 132) return early when the map has no entry;
  otherwise they call the driver on the stored client and pass its outcome on.
  \<open>get(server)!\<close> is \<open>undefined\<close> only when the key is missing.
\<close>

definition listDatabases ::
    "mongo \<Rightarrow> string \<Rightarrow> appContext \<Rightarrow> (error + databaseInfo list) \<times> appContext" where
  "listDatabases d server st =
     (if \<not> hasConnection st server then (Inr [], st)
      else case mongoClients st server of
             None \<Rightarrow> (Inl TypeError, st)
           | Some client \<Rightarrow>
               (adminListDatabases d client, st\<lparr> calls := calls st @ [AdminListDatabases client] \<rparr>))"

definition listCollections ::
    "mongo \<Rightarrow> string \<Rightarrow> string \<Rightarrow> appContext \<Rightarrow> (error + string list) \<times> appContext" where
  "listCollections d server databaseName st =
     (if \<not> hasConnection st server then (Inr [], st)
      else case mongoClients st server of
             None \<Rightarrow> (Inl TypeError, st)
           | Some client \<Rightarrow>
               (collections d client databaseName,
                st\<lparr> calls := calls st @ [DbCollections client databaseName] \<rparr>))"

definition removeDatabase ::
    "mongo \<Rightarrow> string \<Rightarrow> string \<Rightarrow> appContext \<Rightarrow> (error + bool) \<times> appContext" where
  "removeDatabase d server databaseName st =
     (if \<not> hasConnection st server then (Inr False, st)
      else case mongoClients st server of
             None \<Rightarrow> (Inl TypeError, st)
           | Some client \<Rightarrow>
               (dropDatabase d client databaseName,
                st\<lparr> calls := calls st @ [DbDropDatabase client databaseName] \<rparr>))"

definition removeCollection ::
    "mongo \<Rightarrow> string \<Rightarrow> string \<Rightarrow> string \<Rightarrow> appContext \<Rightarrow> (error + bool) \<times> appContext" where
  "removeCollection d server databaseName collectionName st =
     (if \<not> hasConnection st server then (Inr False, st)
      else case mongoClients st server of
             None \<Rightarrow> (Inl TypeError, st)
           | Some client \<Rightarrow>
               (dropCollection d client databaseName collectionName,
                st\<lparr> calls := calls st @ [DbDropCollection client databaseName collectionName] \<rparr>))"

text \<open>
  \<open>createMongoCollection\<close>, lines 243 to 293, where the method meets the map. What comes
  before (the prompts for a profile, a database name and a collection name) reads
  neither the map nor the driver.

  The body of the method is the executor of a \<open>new Promise(async (resolve, reject) => ...)\<close>.
  Its outcome is \<open>Some (Inr x)\<close> when \<open>resolve\<close> is called, \<open>Some (Inl e)\<close> when
  \<open>reject\<close> is called, and \<open>None\<close> when neither is: an exception thrown inside the
  executor is lost, and the promise never settles.

  Lines 285 to 293: with a client in hand the collection is created on it, and a
  rejection of the driver is such a lost exception; without a client (a failed
  \<open>connect\<close>) the promise is rejected with \<open>failConnectTo\<close>.
\<close>

definition createMongoCollection_finish ::
    "mongo \<Rightarrow> mongoClient option \<Rightarrow> string option \<Rightarrow> string \<Rightarrow> appContext \<Rightarrow>
     (error + string) option \<times> appContext" where
  "createMongoCollection_finish d client databaseName collectionName st =
     (case client of
        None \<Rightarrow> (Some (Inl FailConnectTo), st)
      | Some c \<Rightarrow>
          ((case createCollection d c databaseName collectionName of
              Inl e \<Rightarrow> None
            | Inr collection \<Rightarrow> Some (Inr collection)),
           st\<lparr> calls := calls st @ [DbCreateCollection c databaseName collectionName] \<rparr>))"

text \<open>
  Lines 243 to 246: when the map has an entry, the method takes it and goes on to
  line 285 without an \<open>await\<close> in between. When it has none, the method is suspended at
  the \<open>await\<close> of line 247, and other calls may run before it goes on: the result is
  \<open>None\<close>.
\<close>

definition createMongoCollection_begin ::
    "mongo \<Rightarrow> string \<Rightarrow> string option \<Rightarrow> string \<Rightarrow> appContext \<Rightarrow>
     ((error + string) option \<times> appContext) option" where
  "createMongoCollection_begin d server databaseName collectionName st =
     (if hasConnection st server
      then Some (createMongoCollection_finish d (mongoClients st server)
                   databaseName collectionName st)
      else None)"

text \<open>
  Lines 247 to 293, what the suspended method does when it goes on. \<open>credential\<close> is the
  outcome of lines 247 to 280: the connection string from the host's credential store
  or from \<open>retrieveConnectionStringFromArm\<close>, or the error the promise is rejected with.
  With a connection string the method calls \<open>this.connect\<close>, whatever the map holds by
  then, and uses the client that call returns.
\<close>

definition createMongoCollection_resume ::
    "mongo \<Rightarrow> string \<Rightarrow> error + string \<Rightarrow> string option \<Rightarrow> string \<Rightarrow> appContext \<Rightarrow>
     (error + string) option \<times> appContext" where
  "createMongoCollection_resume d server credential databaseName collectionName st =
     (case credential of
        Inl e \<Rightarrow> (Some (Inl e), st)
      | Inr connStr \<Rightarrow>
          (case connect d server connStr st of
             (client, st1) \<Rightarrow>
               createMongoCollection_finish d client databaseName collectionName st1))"

text \<open>The method when no other call runs while it is suspended.\<close>

definition createMongoCollection ::
    "mongo \<Rightarrow> string \<Rightarrow> error + string \<Rightarrow> string option \<Rightarrow> string \<Rightarrow> appContext \<Rightarrow>
     (error + string) option \<times> appContext" where
  "createMongoCollection d server credential databaseName collectionName st =
     (case createMongoCollection_begin d server databaseName collectionName st of
        Some outcome \<Rightarrow> outcome
      | None \<Rightarrow> createMongoCollection_resume d server credential databaseName collectionName st)"

text \<open>
  \<open>disconnect\<close> (lines 297 to 305): no entry, a resolved promise; otherwise the entry is
  deleted, then \<open>close()\<close> is called on the client and its promise returned. There is no
  \<open>await\<close> between the two statements.
\<close>

definition disconnect :: "mongo \<Rightarrow> string \<Rightarrow> appContext \<Rightarrow> (error + unit) \<times> appContext" where
  "disconnect d server st =
     (if \<not> hasConnection st server then (Inr (), st)
      else
        let client = mongoClients st server;
            st1 = st\<lparr> mongoClients := (mongoClients st)(server := None),
                       calls := calls st @ [MapDelete server] \<rparr>
        in case client of
             None \<Rightarrow> (Inl TypeError, st1)
           | Some c \<Rightarrow>
               (close d c,
                st1\<lparr> closedClients := insert c (closedClients st1),
                     calls := calls st1 @ [ClientClose c] \<rparr>))"

text \<open>
  The map is private: \<open>set\<close> is called in \<open>connect\<close> only and \<open>delete\<close> in \<open>disconnect\<close> only.
  Of the two methods left out below, \<open>getMongoShellOptions\<close> does not mention the map and
  \<open>insertDocuments\<close> only calls \<open>get\<close>. A history of an \<open>AppContext\<close> is a sequence of the
  calls below, each with the driver's answers at its time. A call stands at the moment
  it reads or writes the map: a \<open>connect\<close> where the driver has answered and \<open>set\<close> is
  called, a \<open>createMongoCollection\<close> that found no entry once where it looks
  (\<open>CreateMongoCollection\<close>) and once where it goes on (\<open>ResumeCreateMongoCollection\<close>), so
  that other calls can stand in between.
\<close>

datatype call =
    Connect string string
  | HasConnection string
  | ListDatabases string
  | ListCollections string string
  | RemoveDatabase string string
  | RemoveCollection string string string
  | CreateMongoCollection string "string option" string
  | ResumeCreateMongoCollection string "error + string" "string option" string
  | Disconnect string

fun step :: "mongo \<Rightarrow> call \<Rightarrow> appContext \<Rightarrow> appContext" where
  "step d (Connect server connStr) st = snd (connect d server connStr st)"
| "step d (HasConnection server) st = st"
| "step d (ListDatabases server) st = snd (listDatabases d server st)"
| "step d (ListCollections server db) st = snd (listCollections d server db st)"
| "step d (RemoveDatabase server db) st = snd (removeDatabase d server db st)"
| "step d (RemoveCollection server db coll) st = snd (removeCollection d server db coll st)"
| "step d (CreateMongoCollection server db coll) st =
     (case createMongoCollection_begin d server db coll st of
        Some outcome \<Rightarrow> snd outcome
      | None \<Rightarrow> st)"
| "step d (ResumeCreateMongoCollection server credential db coll) st =
     snd (createMongoCollection_resume d server credential db coll st)"
| "step d (Disconnect server) st = snd (disconnect d server st)"

fun run :: "(mongo \<times> call) list \<Rightarrow> appContext \<Rightarrow> appContext" where
  "run [] st = st"
| "run (dc # rest) st = run rest (step (fst dc) (snd dc) st)"

text \<open>
  The calls in which \<open>connect\<close> or \<open>disconnect\<close> is performed for a key: the two methods
  themselves, and a \<open>createMongoCollection\<close> that had found no entry for the key and goes
  on to connect it.
\<close>

fun writes :: "string \<Rightarrow> call \<Rightarrow> bool" where
  "writes k (Connect server connStr) = (server = k)"
| "writes k (Disconnect server) = (server = k)"
| "writes k (ResumeCreateMongoCollection server credential db coll) = (server = k)"
| "writes k other = False"

text \<open>
  No entry of the map is a closed client; every stored and every closed client is an
  object that was created; and no two keys hold the same object.
\<close>

definition registry_ok :: "appContext \<Rightarrow> bool" where
  "registry_ok st =
     ((\<forall>k c. mongoClients st k = Some c \<longrightarrow> c < created st \<and> c \<notin> closedClients st) \<and>
      (\<forall>c. c \<in> closedClients st \<longrightarrow> c < created st) \<and>
      (\<forall>k k' c. mongoClients st k = Some c \<and> mongoClients st k' = Some c \<longrightarrow> k = k'))"

text \<open>
  An example driver: every connection string but \<open>mongodb://unreachable\<close> can be opened,
  every client has one database with one collection, and drops and closes succeed.
\<close>

definition exampleMongo :: mongo where
  "exampleMongo =
     \<lparr> connectResolves = (\<lambda>connStr. connStr \<noteq> ''mongodb://unreachable''),
       adminListDatabases = (\<lambda>client. Inr [\<lparr> name = ''db1'', sizeOnDisk = Some 8192 \<rparr>]),
       collections = (\<lambda>client db. Inr [''coll1'']),
       dropDatabase = (\<lambda>client db. Inr True),
       dropCollection = (\<lambda>client db coll. Inr True),
       createCollection = (\<lambda>client db coll. Inr coll),
       close = (\<lambda>client. Inr ()) \<rparr>"

section \<open>Facts about the parser\<close>

lemma js_split_nonempty: "js_split sep s \<noteq> []"
  by (induction s) (auto simp: Let_def)

lemma length_js_split: "length (js_split sep s) = Suc (length (filter (\<lambda>c. c = sep) s))"
proof (induction s)
  case Nil
  show ?case by simp
next
  case (Cons c cs)
  have "length (tl (js_split sep cs)) = length (js_split sep cs) - 1"
    by simp
  with Cons show ?case
    by (simp add: js_split_nonempty Let_def)
qed

lemma parsedAzureResourceId_fields:
  assumes "9 \<le> length (js_split (CHR ''/'') s)"
  shows "subscriptionId (parsedAzureResourceId s) = Some (js_split (CHR ''/'') s ! 2)"
    and "resourceGroup (parsedAzureResourceId s) = Some (js_split (CHR ''/'') s ! 4)"
    and "dbAccountName (parsedAzureResourceId s) = Some (js_split (CHR ''/'') s ! 8)"
  using assms by (simp_all add: parsedAzureResourceId_def at_index_def Let_def)

section \<open>Facts about the pipeline\<close>

subsection \<open>Sequencing and the loop\<close>

lemma bind_io_ret: "bind_io (ret x) f tr = f x tr"
  by (simp add: bind_io_def ret_def)

lemma bind_io_throw: "bind_io (throw e) f tr = (Inl e, tr)"
  by (simp add: bind_io_def throw_def)

lemma bind_io_emit: "bind_io (emit ev) f tr = f () (tr @ [ev])"
  by (simp add: bind_io_def emit_def)

lemma bind_io_Inr: "m tr = (Inr x, tr') \<Longrightarrow> bind_io m f tr = f x tr'"
  by (simp add: bind_io_def)

lemma bind_io_Inl: "m tr = (Inl e, tr') \<Longrightarrow> bind_io m f tr = (Inl e, tr')"
  by (simp add: bind_io_def)

lemma enforceChoice_stop:
  "pick \<noteq> None \<or> picks = [] \<or> \<not> attempts < m \<Longrightarrow>
   enforceChoice w m picks pick attempts tr = (Inr pick, tr)"
  by (subst enforceChoice.simps) auto

lemma enforceChoice_prompt:
  "picks \<noteq> [] \<Longrightarrow> attempts < m \<Longrightarrow>
   enforceChoice w m picks None attempts tr =
   enforceChoice w m picks (showQuickPick w attempts picks) (Suc attempts)
     (tr @ [ShowQuickPick picks])"
  by (subst enforceChoice.simps) simp

lemma enforceChoice_dismissed:
  assumes "picks \<noteq> []"
  shows "(\<forall>j. i \<le> j \<and> j < m \<longrightarrow> showQuickPick w j picks = None) \<Longrightarrow>
     enforceChoice w m picks None i tr = (Inr None, tr @ replicate (m - i) (ShowQuickPick picks))"
proof (induction "m - i" arbitrary: i tr)
  case 0
  then have "\<not> i < m" by simp
  then show ?case using 0 by (simp add: enforceChoice_stop)
next
  case (Suc d)
  then have lt: "i < m" and d: "d = m - Suc i" by simp_all
  have none: "showQuickPick w i picks = None" using Suc.prems lt by simp
  have rest: "\<forall>j. Suc i \<le> j \<and> j < m \<longrightarrow> showQuickPick w j picks = None"
    using Suc.prems by simp
  have "enforceChoice w m picks None i tr =
        enforceChoice w m picks None (Suc i) (tr @ [ShowQuickPick picks])"
    using assms lt none by (simp add: enforceChoice_prompt)
  also have "\<dots> = (Inr None, (tr @ [ShowQuickPick picks]) @ replicate (m - Suc i) (ShowQuickPick picks))"
    using Suc.hyps(1) [OF d rest] .
  also have "(tr @ [ShowQuickPick picks]) @ replicate (m - Suc i) (ShowQuickPick picks) =
             tr @ replicate (m - i) (ShowQuickPick picks)"
  proof -
    have "m - i = Suc (m - Suc i)" using lt by arith
    then show ?thesis by simp
  qed
  finally show ?case .
qed

lemma enforceChoice_answered:
  assumes "picks \<noteq> []"
  shows "i + k < m \<Longrightarrow> (\<forall>j<k. showQuickPick w (i + j) picks = None) \<Longrightarrow>
     showQuickPick w (i + k) picks = Some p \<Longrightarrow>
     enforceChoice w m picks None i tr = (Inr (Some p), tr @ replicate (Suc k) (ShowQuickPick picks))"
proof (induction k arbitrary: i tr)
  case 0
  then show ?case using assms by (simp add: enforceChoice_prompt enforceChoice_stop)
next
  case (Suc k)
  have none: "showQuickPick w i picks = None" using Suc.prems(2) [rule_format, of 0] by simp
  have rest: "\<forall>j<k. showQuickPick w (Suc i + j) picks = None"
    using Suc.prems(2) by (metis Suc_less_eq add_Suc_shift)
  have "enforceChoice w m picks None i tr =
        enforceChoice w m picks None (Suc i) (tr @ [ShowQuickPick picks])"
    using assms Suc.prems(1) none by (simp add: enforceChoice_prompt)
  also have "\<dots> = (Inr (Some p), (tr @ [ShowQuickPick picks]) @ replicate (Suc k) (ShowQuickPick picks))"
    using Suc.IH [of "Suc i"] Suc.prems(1,3) rest by simp
  finally show ?case by (simp add: replicate_append_same)
qed

lemma enforceChoice_bound:
  "\<exists>k r. k \<le> m - i \<and>
     enforceChoice w m picks pick i tr = (Inr r, tr @ replicate k (ShowQuickPick picks))"
proof (induction w m picks pick i tr rule: enforceChoice.induct)
  case (1 w m picks pick i tr)
  show ?case
  proof (cases "pick = None \<and> length picks > 0 \<and> i < m")
    case False
    then have "enforceChoice w m picks pick i tr = (Inr pick, tr @ replicate 0 (ShowQuickPick picks))"
      by (subst enforceChoice.simps) auto
    then show ?thesis by (metis le0)
  next
    case True
    from 1 [OF True] obtain k r where k: "k \<le> m - (i + 1)"
      and eq: "enforceChoice w m picks (showQuickPick w i picks) (i + 1) (tr @ [ShowQuickPick picks]) =
               (Inr r, (tr @ [ShowQuickPick picks]) @ replicate k (ShowQuickPick picks))"
      by blast
    have "enforceChoice w m picks pick i tr = (Inr r, tr @ replicate (Suc k) (ShowQuickPick picks))"
      using True eq by (subst enforceChoice.simps) (simp add: replicate_append_same)
    moreover have "Suc k \<le> m - i" using k True by arith
    ultimately show ?thesis by blast
  qed
qed

subsection \<open>The example world\<close>

lemma example_fetch:
  "fetchConnectionStrings (exampleWorld listing human) ''acc1'' ''tenant1'' (Some exampleResourceId)
     ''acct1'' [] = (Inr listing, exampleTrace)"
  by (simp add: fetchConnectionStrings_def createArmClient_def retrieveAzureAccount_def
      retrieveAzureToken_def retrieveResourceId_def exampleWorld_def exampleResourceId_def
      exampleTrace_def parsedAzureResourceId_def at_index_def falsy_def
      bind_io_def ret_def throw_def emit_def Let_def)

lemma example_human: "showQuickPick (exampleWorld listing human) = human"
  by (simp add: exampleWorld_def)

subsection \<open>From the listing to the result\<close>

lemma retrieveConnectionStringFromArm_after_fetch:
  "fetchConnectionStrings w a t rid n tr = (Inr response, tr') \<Longrightarrow>
   retrieveConnectionStringFromArm w m a t rid n tr = chooseConnectionString w m n response tr'"
  by (simp add: retrieveConnectionStringFromArm_def bind_io_Inr)

lemma armService_after_fetch:
  "fetchConnectionStrings w a t rid n tr = (Inr response, tr') \<Longrightarrow>
   armService_retrieveConnectionStringFromArm w a t rid n tr = firstConnectionString response tr'"
  by (simp add: armService_retrieveConnectionStringFromArm_def bind_io_Inr)

lemma chooseConnectionString_absent:
  "chooseConnectionString w m n None tr = (Inl NoConnectionStringsFound, tr)"
  by (simp add: chooseConnectionString_def throw_def)

lemma chooseConnectionString_empty:
  "chooseConnectionString w m n (Some []) tr = (Inl MissingConnectionString, tr)"
  by (simp add: chooseConnectionString_def enforceChoice_stop bind_io_def throw_def)

lemma chooseConnectionString_dismissed:
  assumes "css \<noteq> []" and "\<forall>k picks. showQuickPick w k picks = None"
  shows "chooseConnectionString w m n (Some css) tr =
         (Inl MissingConnectionString,
          tr @ replicate m (ShowQuickPick (map (toPick n) (enumerate 0 css))))"
proof -
  let ?picks = "map (toPick n) (enumerate 0 css)"
  have "length ?picks = length css" by simp
  then have "?picks \<noteq> []" using assms(1) by (metis length_0_conv)
  then have "enforceChoice w m ?picks None 0 tr = (Inr None, tr @ replicate (m - 0) (ShowQuickPick ?picks))"
    using assms(2) by (intro enforceChoice_dismissed) simp_all
  then show ?thesis
    by (simp add: chooseConnectionString_def bind_io_Inr throw_def Let_def)
qed

lemma chooseConnectionString_answered:
  assumes "css \<noteq> []" and "k < m"
      and "\<forall>j<k. showQuickPick w j (map (toPick n) (enumerate 0 css)) = None"
      and "showQuickPick w k (map (toPick n) (enumerate 0 css)) = Some p"
      and "connectionString p = Some s" and "s \<noteq> []"
  shows "chooseConnectionString w m n (Some css) tr =
         (Inr s, tr @ replicate (Suc k) (ShowQuickPick (map (toPick n) (enumerate 0 css))))"
proof -
  let ?picks = "map (toPick n) (enumerate 0 css)"
  have "length ?picks = length css" by simp
  then have "?picks \<noteq> []" using assms(1) by (metis length_0_conv)
  then have "enforceChoice w m ?picks None 0 tr =
             (Inr (Some p), tr @ replicate (Suc k) (ShowQuickPick ?picks))"
    using assms(2,3,4) by (intro enforceChoice_answered) simp_all
  then show ?thesis
    using assms(5,6)
    by (simp add: chooseConnectionString_def bind_io_Inr ret_def falsy_def Let_def)
qed

lemma firstConnectionString_first:
  "connectionString c = Some s \<Longrightarrow> s \<noteq> [] \<Longrightarrow>
   firstConnectionString (Some (c # cs)) tr = (Inr s, tr)"
  by (simp add: firstConnectionString_def at_index_def falsy_def ret_def)

lemma firstConnectionString_absent:
  "firstConnectionString None tr = (Inl NoConnectionStringsFound, tr)"
  by (simp add: firstConnectionString_def throw_def)

lemma firstConnectionString_empty:
  "firstConnectionString (Some []) tr = (Inl TypeError, tr)"
  by (simp add: firstConnectionString_def at_index_def throw_def)

lemma toPick_connectionString: "connectionString (toPick n ic) = connectionString (snd ic)"
  by (simp add: toPick_def)

subsection \<open>Selecting a connection string\<close>

text \<open>
  C1 (corrected). With exactly one candidate in the listing, whose connection string is
  present and not empty, the service of AbstractArmService.ts returns that connection
  string and prompts nobody: its trace ends where the listing ended. The function of
  appContext.ts enters its loop for every non-empty listing, so it shows the quick pick
  with the single candidate at least once; when the human dismisses the first \<open>k\<close>
  prompts and confirms the candidate at prompt \<open>k < PICK_MAX_ATTEMPTS\<close>, it returns the
  candidate's connection string after \<open>k + 1\<close> prompts.
\<close>


theorem single_candidate_prompted:
  assumes "fetchConnectionStrings w a t rid n tr = (Inr (Some [c]), tr')"
      and "connectionString c = Some s" and "s \<noteq> []"
  shows "armService_retrieveConnectionStringFromArm w a t rid n tr = (Inr s, tr') \<and>
         (\<forall>k<m. (\<forall>j<k. showQuickPick w j [toPick n (0, c)] = None) \<longrightarrow>
                 showQuickPick w k [toPick n (0, c)] = Some (toPick n (0, c)) \<longrightarrow>
                 retrieveConnectionStringFromArm w m a t rid n tr =
                 (Inr s, tr' @ replicate (Suc k) (ShowQuickPick [toPick n (0, c)])))"
proof (intro conjI allI impI)
  show "armService_retrieveConnectionStringFromArm w a t rid n tr = (Inr s, tr')"
    using assms by (simp add: armService_after_fetch firstConnectionString_first)
next
  fix k
  assume k: "k < m" and none: "\<forall>j<k. showQuickPick w j [toPick n (0, c)] = None"
    and pick: "showQuickPick w k [toPick n (0, c)] = Some (toPick n (0, c))"
  have "chooseConnectionString w m n (Some [c]) tr' =
        (Inr s, tr' @ replicate (Suc k) (ShowQuickPick (map (toPick n) (enumerate 0 [c]))))"
    using k none pick assms(2,3)
    by (intro chooseConnectionString_answered [where p = "toPick n (0, c)"])
       (simp_all add: toPick_connectionString)
  then show "retrieveConnectionStringFromArm w m a t rid n tr =
             (Inr s, tr' @ replicate (Suc k) (ShowQuickPick [toPick n (0, c)]))"
    using assms(1) by (simp add: retrieveConnectionStringFromArm_after_fetch)
qed

text \<open>
  The example world with one key and a human who dismisses twice, then confirms.
\<close>

theorem single_candidate_prompted_witness:
  "fetchConnectionStrings (exampleWorld (Some [primaryKey]) (\<lambda>k picks. if k < 2 then None else at_index picks 0))
     ''acc1'' ''tenant1'' (Some exampleResourceId) ''acct1'' [] = (Inr (Some [primaryKey]), exampleTrace) \<and>
   connectionString primaryKey = Some ''mongodb://primary'' \<and>
   armService_retrieveConnectionStringFromArm
     (exampleWorld (Some [primaryKey]) (\<lambda>k picks. if k < 2 then None else at_index picks 0))
     ''acc1'' ''tenant1'' (Some exampleResourceId) ''acct1'' [] = (Inr ''mongodb://primary'', exampleTrace) \<and>
   retrieveConnectionStringFromArm
     (exampleWorld (Some [primaryKey]) (\<lambda>k picks. if k < 2 then None else at_index picks 0))
     3 ''acc1'' ''tenant1'' (Some exampleResourceId) ''acct1'' [] =
     (Inr ''mongodb://primary'',
      exampleTrace @ replicate 3 (ShowQuickPick [toPick ''acct1'' (0, primaryKey)]))"
proof -
  let ?w = "exampleWorld (Some [primaryKey]) (\<lambda>k picks. if k < 2 then None else at_index picks 0)"
  have f: "fetchConnectionStrings ?w ''acc1'' ''tenant1'' (Some exampleResourceId) ''acct1'' [] =
           (Inr (Some [primaryKey]), exampleTrace)"
    by (rule example_fetch)
  have c: "connectionString primaryKey = Some ''mongodb://primary''"
    by (simp add: primaryKey_def)
  have s: "''mongodb://primary'' \<noteq> []" by simp
  note th = single_candidate_prompted [OF f c s, of 3]
  have r: "retrieveConnectionStringFromArm ?w 3 ''acc1'' ''tenant1'' (Some exampleResourceId)
             ''acct1'' [] =
           (Inr ''mongodb://primary'',
            exampleTrace @ replicate (Suc 2) (ShowQuickPick [toPick ''acct1'' (0, primaryKey)]))"
    by (rule th [THEN conjunct2, rule_format, of 2]) (simp_all add: example_human at_index_def)
  from th f c r show ?thesis
    by (simp add: numeral_3_eq_3)
qed

text \<open>
  C1 as stated fails: with the single candidate \<open>primaryKey\<close> and
  \<open>PICK_MAX_ATTEMPTS = 3\<close>, a human who always dismisses is prompted three times and the
  function fails with \<open>MissingConnectionString\<close>; a human who confirms at once is still
  prompted once.
\<close>

theorem single_candidate_counterexample:
  "fetchConnectionStrings (exampleWorld (Some [primaryKey]) (\<lambda>k picks. None))
     ''acc1'' ''tenant1'' (Some exampleResourceId) ''acct1'' [] = (Inr (Some [primaryKey]), exampleTrace) \<and>
   retrieveConnectionStringFromArm (exampleWorld (Some [primaryKey]) (\<lambda>k picks. None))
     3 ''acc1'' ''tenant1'' (Some exampleResourceId) ''acct1'' [] =
     (Inl MissingConnectionString,
      exampleTrace @ replicate 3 (ShowQuickPick [toPick ''acct1'' (0, primaryKey)])) \<and>
   retrieveConnectionStringFromArm (exampleWorld (Some [primaryKey]) (\<lambda>k picks. at_index picks 0))
     3 ''acc1'' ''tenant1'' (Some exampleResourceId) ''acct1'' [] =
     (Inr ''mongodb://primary'', exampleTrace @ [ShowQuickPick [toPick ''acct1'' (0, primaryKey)]])"
  by (simp add: retrieveConnectionStringFromArm_after_fetch [OF example_fetch] example_fetch
      chooseConnectionString_def enforceChoice.simps example_human at_index_def
      bind_io_def ret_def throw_def falsy_def toPick_def primaryKey_def Let_def
      numeral_3_eq_3)

text \<open>
  C2 (confirmed). With more than one candidate and a human who dismisses every prompt,
  the function of appContext.ts shows the quick pick exactly \<open>PICK_MAX_ATTEMPTS\<close> times
  (so at most that often) and then fails with \<open>MissingConnectionString\<close>. The loop is a
  total function: it returns for every bound and every human.
\<close>

theorem dismissed_chooser_is_bounded:
  assumes "fetchConnectionStrings w a t rid n tr = (Inr (Some css), tr')"
      and "1 < length css"
      and "\<forall>k picks. showQuickPick w k picks = None"
  shows "retrieveConnectionStringFromArm w m a t rid n tr =
         (Inl MissingConnectionString,
          tr' @ replicate m (ShowQuickPick (map (toPick n) (enumerate 0 css))))"
proof -
  have "css \<noteq> []" using assms(2) by auto
  then have "chooseConnectionString w m n (Some css) tr' =
             (Inl MissingConnectionString,
              tr' @ replicate m (ShowQuickPick (map (toPick n) (enumerate 0 css))))"
    using assms(3) by (rule chooseConnectionString_dismissed)
  then show ?thesis
    using assms(1) by (simp add: retrieveConnectionStringFromArm_after_fetch)
qed

theorem dismissed_chooser_is_bounded_witness:
  "fetchConnectionStrings (exampleWorld (Some [primaryKey, secondaryKey]) (\<lambda>k picks. None))
     ''acc1'' ''tenant1'' (Some exampleResourceId) ''acct1'' [] =
     (Inr (Some [primaryKey, secondaryKey]), exampleTrace) \<and>
   1 < length [primaryKey, secondaryKey] \<and>
   (\<forall>k picks. showQuickPick (exampleWorld (Some [primaryKey, secondaryKey]) (\<lambda>k picks. None))
      k picks = None) \<and>
   retrieveConnectionStringFromArm (exampleWorld (Some [primaryKey, secondaryKey]) (\<lambda>k picks. None))
     3 ''acc1'' ''tenant1'' (Some exampleResourceId) ''acct1'' [] =
     (Inl MissingConnectionString,
      exampleTrace @ replicate 3
        (ShowQuickPick [toPick ''acct1'' (0, primaryKey), toPick ''acct1'' (1, secondaryKey)]))"
proof -
  let ?w = "exampleWorld (Some [primaryKey, secondaryKey]) (\<lambda>k picks. None)"
  have f: "fetchConnectionStrings ?w ''acc1'' ''tenant1'' (Some exampleResourceId) ''acct1'' [] =
           (Inr (Some [primaryKey, secondaryKey]), exampleTrace)"
    by (rule example_fetch)
  have l: "1 < length [primaryKey, secondaryKey]" by simp
  have h: "\<forall>k picks. showQuickPick ?w k picks = None" by (simp add: example_human)
  from dismissed_chooser_is_bounded [OF f l h, of 3] f l h show ?thesis
    by (simp add: enumerate_simps)
qed

text \<open>
  C3 (corrected). When the field \<open>connectionStrings\<close> of the answer is absent, both
  variants fail with \<open>NoConnectionStringsFound\<close>. An empty array is not absent
  (\<open>![]\<close> is false): the function of appContext.ts then skips its loop, prompts
  nobody and fails with \<open>MissingConnectionString\<close>.
\<close>

theorem absent_or_empty_listing:
  assumes "fetchConnectionStrings w a t rid n tr = (Inr response, tr')"
  shows "(response = None \<longrightarrow>
            retrieveConnectionStringFromArm w m a t rid n tr = (Inl NoConnectionStringsFound, tr') \<and>
            armService_retrieveConnectionStringFromArm w a t rid n tr =
              (Inl NoConnectionStringsFound, tr')) \<and>
         (response = Some [] \<longrightarrow>
            retrieveConnectionStringFromArm w m a t rid n tr = (Inl MissingConnectionString, tr'))"
  using assms
  by (simp add: retrieveConnectionStringFromArm_after_fetch armService_after_fetch
      chooseConnectionString_absent chooseConnectionString_empty firstConnectionString_absent)

theorem absent_or_empty_listing_witness:
  "fetchConnectionStrings (exampleWorld None (\<lambda>k picks. at_index picks 0))
     ''acc1'' ''tenant1'' (Some exampleResourceId) ''acct1'' [] = (Inr None, exampleTrace) \<and>
   retrieveConnectionStringFromArm (exampleWorld None (\<lambda>k picks. at_index picks 0))
     3 ''acc1'' ''tenant1'' (Some exampleResourceId) ''acct1'' [] =
     (Inl NoConnectionStringsFound, exampleTrace) \<and>
   armService_retrieveConnectionStringFromArm (exampleWorld None (\<lambda>k picks. at_index picks 0))
     ''acc1'' ''tenant1'' (Some exampleResourceId) ''acct1'' [] =
     (Inl NoConnectionStringsFound, exampleTrace) \<and>
   fetchConnectionStrings (exampleWorld (Some []) (\<lambda>k picks. at_index picks 0))
     ''acc1'' ''tenant1'' (Some exampleResourceId) ''acct1'' [] = (Inr (Some []), exampleTrace) \<and>
   retrieveConnectionStringFromArm (exampleWorld (Some []) (\<lambda>k picks. at_index picks 0))
     3 ''acc1'' ''tenant1'' (Some exampleResourceId) ''acct1'' [] =
     (Inl MissingConnectionString, exampleTrace)"
proof -
  let ?h = "\<lambda>(k::nat) (picks::connectionStringPick list). at_index picks 0"
  have f1: "fetchConnectionStrings (exampleWorld None ?h) ''acc1'' ''tenant1''
              (Some exampleResourceId) ''acct1'' [] = (Inr None, exampleTrace)"
    by (rule example_fetch)
  have f2: "fetchConnectionStrings (exampleWorld (Some []) ?h) ''acc1'' ''tenant1''
              (Some exampleResourceId) ''acct1'' [] = (Inr (Some []), exampleTrace)"
    by (rule example_fetch)
  from absent_or_empty_listing [OF f1, of 3] absent_or_empty_listing [OF f2, of 3] f1 f2
  show ?thesis by simp
qed

text \<open>
  C3 as stated fails on the empty listing: the error is \<open>MissingConnectionString\<close>.
\<close>

theorem empty_listing_counterexample:
  "fetchConnectionStrings (exampleWorld (Some []) (\<lambda>k picks. at_index picks 0))
     ''acc1'' ''tenant1'' (Some exampleResourceId) ''acct1'' [] = (Inr (Some []), exampleTrace) \<and>
   retrieveConnectionStringFromArm (exampleWorld (Some []) (\<lambda>k picks. at_index picks 0))
     3 ''acc1'' ''tenant1'' (Some exampleResourceId) ''acct1'' [] =
     (Inl MissingConnectionString, exampleTrace) \<and>
   MissingConnectionString \<noteq> NoConnectionStringsFound"
  by (simp add: retrieveConnectionStringFromArm_after_fetch [OF example_fetch] example_fetch
      chooseConnectionString_empty)

text \<open>
  On the same listing the service of AbstractArmService.ts reads a property of
  \<open>connectionStrings[0]\<close>, which is \<open>undefined\<close>.
\<close>

lemma armService_empty_listing:
  "armService_retrieveConnectionStringFromArm (exampleWorld (Some []) human)
     ''acc1'' ''tenant1'' (Some exampleResourceId) ''acct1'' [] = (Inl TypeError, exampleTrace)"
  by (simp add: armService_after_fetch [OF example_fetch] firstConnectionString_empty)


subsection \<open>The parser on a short path\<close>

lemma parsedAzureResourceId_short:
  "length (js_split (CHR ''/'') s) < 9 \<Longrightarrow> dbAccountName (parsedAzureResourceId s) = None"
  by (simp add: parsedAzureResourceId_def at_index_def Let_def)

text \<open>
  C4 (the code departs from the claim). The path \<open>/subscriptions/sub1\<close> has three
  pieces. \<open>parsedAzureResourceId\<close> does not fail on it: it returns the subscription id and
  leaves the two other fields \<open>undefined\<close>; and the pipeline given this id goes on to build
  the management client and to call \<open>listConnectionStrings\<close> with resource group
  \<open>undefined\<close> (what the management SDK makes of such a call is the world's answer).
\<close>

theorem short_resource_id_is_parsed:
  "length (js_split (CHR ''/'') ''/subscriptions/sub1'') = 3 \<and>
   parsedAzureResourceId ''/subscriptions/sub1'' =
     \<lparr> subscriptionId = Some ''sub1'', resourceGroup = None, dbAccountName = None \<rparr> \<and>
   retrieveConnectionStringFromArm (exampleWorld (Some [primaryKey]) (\<lambda>k picks. at_index picks 0))
     3 ''acc1'' ''tenant1'' (Some ''/subscriptions/sub1'') ''acct1'' [] =
     (Inr ''mongodb://primary'',
      [ShowStatusBarItem ''retrievingAzureAccount'', GetAllAccounts, HideStatusBarItem,
       ShowStatusBarItem ''retrievingAzureAccount'', GetAllAccounts, HideStatusBarItem,
       ShowStatusBarItem ''retrievingAzureToken'', GetAccountSecurityToken ''acc1'' ''tenant1'',
       HideStatusBarItem,
       NewCosmosDBManagementClient (Some ''sub1'') ''https://management.azure.com'',
       ShowStatusBarItem ''retrievingConnectionString'',
       ListConnectionStrings None ''acct1'', HideStatusBarItem,
       ShowQuickPick [toPick ''acct1'' (0, primaryKey)]])"
  by (simp add: retrieveConnectionStringFromArm_def fetchConnectionStrings_def createArmClient_def
      retrieveAzureAccount_def retrieveAzureToken_def retrieveResourceId_def exampleWorld_def
      parsedAzureResourceId_def at_index_def falsy_def chooseConnectionString_def
      enforceChoice.simps toPick_def primaryKey_def
      bind_io_def ret_def throw_def emit_def Let_def)

subsection \<open>What a function adds to the trace\<close>

lemma appends_ret: "appends P (ret x)"
  by (simp add: appends_def ret_def)

lemma appends_throw: "appends P (throw e)"
  by (simp add: appends_def throw_def)

lemma appends_emit: "P ev \<Longrightarrow> appends P (emit ev)"
  by (simp add: appends_def emit_def)

lemma appends_bind:
  assumes m: "appends P m" and f: "\<And>x. appends P (f x)"
  shows "appends P (bind_io m f)"
  unfolding appends_def
proof
  fix tr
  obtain r tr1 where mtr: "m tr = (r, tr1)" by (cases "m tr")
  from m obtain evs1 where e1: "tr1 = tr @ evs1" "list_all P evs1"
    unfolding appends_def using mtr by (metis snd_conv)
  show "\<exists>evs. snd (bind_io m f tr) = tr @ evs \<and> list_all P evs"
  proof (cases r)
    case (Inl e)
    then have "bind_io m f tr = (Inl e, tr1)" using mtr by (simp add: bind_io_def)
    then show ?thesis using e1 by simp
  next
    case (Inr x)
    then have b: "bind_io m f tr = f x tr1" using mtr by (simp add: bind_io_def)
    from f [of x] obtain evs2 where "snd (f x tr1) = tr1 @ evs2" "list_all P evs2"
      unfolding appends_def by blast
    then have "snd (bind_io m f tr) = tr @ (evs1 @ evs2) \<and> list_all P (evs1 @ evs2)"
      using b e1 by simp
    then show ?thesis by blast
  qed
qed

lemma appends_enforceChoice:
  assumes "P (ShowQuickPick picks)"
  shows "appends P (enforceChoice w m picks pick i)"
  unfolding appends_def
proof
  fix tr
  from enforceChoice_bound [of m i w picks pick tr] obtain k r where
    "enforceChoice w m picks pick i tr = (Inr r, tr @ replicate k (ShowQuickPick picks))"
    by blast
  moreover have "list_all P (replicate k (ShowQuickPick picks))"
    using assms by (simp add: list_all_iff)
  ultimately show "\<exists>evs. snd (enforceChoice w m picks pick i tr) = tr @ evs \<and> list_all P evs"
    by (metis snd_conv)
qed

lemmas appends_intros = appends_bind appends_ret appends_throw appends_emit

lemma retrieveAzureAccount_no_locator:
  "appends (\<lambda>e. \<not> is_locator e) (retrieveAzureAccount w a)"
  by (auto simp: retrieveAzureAccount_def Let_def intro!: appends_intros)

lemma retrieveAzureToken_no_locator:
  "appends (\<lambda>e. \<not> is_locator e) (retrieveAzureToken w t a)"
  by (auto simp: retrieveAzureToken_def intro!: appends_intros retrieveAzureAccount_no_locator
      split: option.splits)

lemma createArmClient_no_locator:
  "\<not> falsy rid \<Longrightarrow> appends (\<lambda>e. \<not> is_locator e) (createArmClient w a t rid n)"
  by (auto simp: createArmClient_def Let_def
      intro!: appends_intros retrieveAzureAccount_no_locator retrieveAzureToken_no_locator)

lemma retrieveResourceId_supplied:
  "\<not> falsy rid \<Longrightarrow> retrieveResourceId w a t rid n = ret (case rid of Some s \<Rightarrow> s | None \<Rightarrow> [])"
  by (simp add: retrieveResourceId_def)

lemma fetchConnectionStrings_no_locator:
  "\<not> falsy rid \<Longrightarrow> appends (\<lambda>e. \<not> is_locator e) (fetchConnectionStrings w a t rid n)"
  by (auto simp: fetchConnectionStrings_def Let_def retrieveResourceId_supplied
      intro!: appends_intros createArmClient_no_locator)

lemma chooseConnectionString_no_locator:
  "appends (\<lambda>e. \<not> is_locator e) (chooseConnectionString w m n response)"
  by (auto simp: chooseConnectionString_def Let_def
      intro!: appends_intros appends_enforceChoice split: option.splits)

lemma firstConnectionString_no_locator:
  "appends (\<lambda>e. \<not> is_locator e) (firstConnectionString response)"
  by (auto simp: firstConnectionString_def intro!: appends_intros split: option.splits)

lemma pipeline_no_locator:
  assumes "\<not> falsy rid"
  shows "appends (\<lambda>e. \<not> is_locator e) (retrieveConnectionStringFromArm w m a t rid n)"
    and "appends (\<lambda>e. \<not> is_locator e) (armService_retrieveConnectionStringFromArm w a t rid n)"
  using assms
  by (auto simp: retrieveConnectionStringFromArm_def armService_retrieveConnectionStringFromArm_def
      intro!: appends_bind fetchConnectionStrings_no_locator chooseConnectionString_no_locator
        firstConnectionString_no_locator)

lemma appendsD: "appends P m \<Longrightarrow> \<exists>r evs. m tr = (r, tr @ evs) \<and> list_all P evs"
  unfolding appends_def by (metis prod.collapse)

text \<open>
  C7 (confirmed). Given a resource id that is not empty, \<open>retrieveResourceId\<close> returns it
  unchanged and does nothing else: the trace is as before, so no token is acquired and
  no resource-graph query is made. Whenever \<open>retrieveResourceId\<close> does anything at all,
  the supplied id was absent or empty. The same holds along the pipeline: with a
  supplied id, neither \<open>createArmClient\<close> nor either variant of
  \<open>retrieveConnectionStringFromArm\<close> adds an event of the Resource Locator.
\<close>

theorem supplied_resource_id_wins:
  "(s \<noteq> [] \<longrightarrow> retrieveResourceId w a t (Some s) n tr = (Inr s, tr)) \<and>
   (snd (retrieveResourceId w a t rid n tr) \<noteq> tr \<longrightarrow> falsy rid) \<and>
   (s \<noteq> [] \<longrightarrow>
      (\<exists>r evs. createArmClient w a t (Some s) n tr = (r, tr @ evs) \<and>
         list_all (\<lambda>e. \<not> is_locator e) evs) \<and>
      (\<exists>r evs. retrieveConnectionStringFromArm w m a t (Some s) n tr = (r, tr @ evs) \<and>
         list_all (\<lambda>e. \<not> is_locator e) evs) \<and>
      (\<exists>r evs. armService_retrieveConnectionStringFromArm w a t (Some s) n tr = (r, tr @ evs) \<and>
         list_all (\<lambda>e. \<not> is_locator e) evs))"
proof (intro conjI impI)
  assume "s \<noteq> []"
  then have nf: "\<not> falsy (Some s)" by (simp add: falsy_def)
  show "retrieveResourceId w a t (Some s) n tr = (Inr s, tr)"
    using nf by (simp add: retrieveResourceId_supplied ret_def)
  show "\<exists>r evs. createArmClient w a t (Some s) n tr = (r, tr @ evs) \<and>
          list_all (\<lambda>e. \<not> is_locator e) evs"
    using createArmClient_no_locator [OF nf] by (rule appendsD)
  show "\<exists>r evs. retrieveConnectionStringFromArm w m a t (Some s) n tr = (r, tr @ evs) \<and>
          list_all (\<lambda>e. \<not> is_locator e) evs"
    using pipeline_no_locator(1) [OF nf] by (rule appendsD)
  show "\<exists>r evs. armService_retrieveConnectionStringFromArm w a t (Some s) n tr = (r, tr @ evs) \<and>
          list_all (\<lambda>e. \<not> is_locator e) evs"
    using pipeline_no_locator(2) [OF nf] by (rule appendsD)
next
  assume "snd (retrieveResourceId w a t rid n tr) \<noteq> tr"
  then show "falsy rid"
    by (cases "falsy rid") (simp_all add: retrieveResourceId_supplied ret_def)
qed

theorem supplied_resource_id_wins_witness:
  "exampleResourceId \<noteq> [] \<and>
   retrieveResourceId (exampleWorld (Some [primaryKey]) (\<lambda>k picks. at_index picks 0))
     ''acc1'' ''tenant1'' (Some exampleResourceId) ''acct1'' [] = (Inr exampleResourceId, []) \<and>
   snd (retrieveResourceId (exampleWorld (Some [primaryKey]) (\<lambda>k picks. at_index picks 0))
     ''acc1'' ''tenant1'' None ''acct1'' []) \<noteq> [] \<and>
   falsy None \<and>
   (\<exists>r evs. retrieveConnectionStringFromArm
        (exampleWorld (Some [primaryKey]) (\<lambda>k picks. at_index picks 0))
        3 ''acc1'' ''tenant1'' (Some exampleResourceId) ''acct1'' [] = (r, evs) \<and>
      list_all (\<lambda>e. \<not> is_locator e) evs)"
proof -
  let ?w = "exampleWorld (Some [primaryKey]) (\<lambda>k picks. at_index picks 0)"
  have s: "exampleResourceId \<noteq> []" by (simp add: exampleResourceId_def)
  have l: "snd (retrieveResourceId ?w ''acc1'' ''tenant1'' None ''acct1'' []) \<noteq> []"
    by (simp add: retrieveResourceId_def retrieveAzureToken_def retrieveAzureAccount_def
        locateResourceId_def retrieveResourceInfofromArm_def exampleWorld_def falsy_def
        at_index_def bind_io_def ret_def throw_def emit_def Let_def)
  from supplied_resource_id_wins [of exampleResourceId ?w "''acc1''" "''tenant1''" "''acct1''" "[]"
      None 3] s l
  show ?thesis by simp
qed

subsection \<open>Discovery that finds nothing\<close>

lemma retrieveAzureAccount_eq:
  "retrieveAzureAccount w a tr =
     (case filter (\<lambda>x. accountId x = a) (getAllAccounts w) of
        [] \<Rightarrow> Inl NoAzureAccountFound
      | acc # rest \<Rightarrow> Inr acc,
      tr @ [ShowStatusBarItem ''retrievingAzureAccount'', GetAllAccounts, HideStatusBarItem])"
  by (simp add: retrieveAzureAccount_def bind_io_emit Let_def throw_def ret_def split: list.splits)

lemma locateResourceId_no_rows:
  "resources w creds n = [] \<Longrightarrow>
   locateResourceId w n creds tr =
     (Inl AzureResourceNotFound, tr @ [NewResourceGraphClient, ResourcesQuery n])"
  by (simp add: locateResourceId_def retrieveResourceInfofromArm_def bind_io_def emit_def ret_def
      at_index_def throw_def)

lemma createArmClient_no_rows:
  assumes "falsy rid" and "\<forall>c. resources w c n = []"
  shows "\<exists>e evs. createArmClient w a t rid n tr = (Inl e, tr @ evs) \<and>
           \<not> list_ex is_clientConstruction evs \<and>
           (list_ex is_locator evs \<longrightarrow> e = AzureResourceNotFound)"
  using assms
  by (auto simp: createArmClient_def retrieveAzureToken_def retrieveAzureAccount_eq
      locateResourceId_no_rows bind_io_def emit_def throw_def ret_def Let_def
      split: list.splits option.splits)

text \<open>
  C8 (confirmed). With no resource id supplied and a resource graph that returns no row,
  both variants of the pipeline fail, and nothing they did is the construction of a
  management client; whenever the run got as far as the discovery query, the error is
  \<open>AzureResourceNotFound\<close>.
\<close>

theorem no_rows_fail_before_client:
  assumes "falsy rid" and "\<forall>c. resources w c n = []"
  shows "\<exists>e evs. retrieveConnectionStringFromArm w m a t rid n tr = (Inl e, tr @ evs) \<and>
           armService_retrieveConnectionStringFromArm w a t rid n tr = (Inl e, tr @ evs) \<and>
           \<not> list_ex is_clientConstruction evs \<and>
           (list_ex is_locator evs \<longrightarrow> e = AzureResourceNotFound)"
proof -
  from createArmClient_no_rows [OF assms, of a t tr] obtain e evs where
    c: "createArmClient w a t rid n tr = (Inl e, tr @ evs)" and
    p: "\<not> list_ex is_clientConstruction evs" "list_ex is_locator evs \<longrightarrow> e = AzureResourceNotFound"
    by blast
  from c have f: "fetchConnectionStrings w a t rid n tr = (Inl e, tr @ evs)"
    by (simp add: fetchConnectionStrings_def bind_io_Inl)
  then have "retrieveConnectionStringFromArm w m a t rid n tr = (Inl e, tr @ evs)"
    and "armService_retrieveConnectionStringFromArm w a t rid n tr = (Inl e, tr @ evs)"
    by (simp_all add: retrieveConnectionStringFromArm_def
        armService_retrieveConnectionStringFromArm_def bind_io_Inl)
  with p show ?thesis by blast
qed

theorem no_rows_fail_before_client_witness:
  "falsy None \<and>
   (\<forall>c. resources (exampleWorld (Some [primaryKey]) (\<lambda>k picks. at_index picks 0)) c ''acct1'' = []) \<and>
   retrieveConnectionStringFromArm (exampleWorld (Some [primaryKey]) (\<lambda>k picks. at_index picks 0))
     3 ''acc1'' ''tenant1'' None ''acct1'' [] =
     (Inl AzureResourceNotFound,
      [ShowStatusBarItem ''retrievingAzureAccount'', GetAllAccounts, HideStatusBarItem,
       ShowStatusBarItem ''retrievingAzureAccount'', GetAllAccounts, HideStatusBarItem,
       ShowStatusBarItem ''retrievingAzureToken'', GetAccountSecurityToken ''acc1'' ''tenant1'',
       HideStatusBarItem, NewResourceGraphClient, ResourcesQuery ''acct1''])"
proof -
  let ?w = "exampleWorld (Some [primaryKey]) (\<lambda>k picks. at_index picks 0)"
  have f: "falsy None" by (simp add: falsy_def)
  have r: "\<forall>c. resources ?w c ''acct1'' = []" by (simp add: exampleWorld_def)
  have c: "createArmClient ?w ''acc1'' ''tenant1'' None ''acct1'' [] =
     (Inl AzureResourceNotFound,
      [ShowStatusBarItem ''retrievingAzureAccount'', GetAllAccounts, HideStatusBarItem,
       ShowStatusBarItem ''retrievingAzureAccount'', GetAllAccounts, HideStatusBarItem,
       ShowStatusBarItem ''retrievingAzureToken'', GetAccountSecurityToken ''acc1'' ''tenant1'',
       HideStatusBarItem, NewResourceGraphClient, ResourcesQuery ''acct1''])"
    by (simp add: createArmClient_def retrieveAzureToken_def retrieveAzureAccount_def
        locateResourceId_def retrieveResourceInfofromArm_def exampleWorld_def falsy_def
        at_index_def bind_io_def ret_def throw_def emit_def Let_def)
  from no_rows_fail_before_client [OF f r, of 3 "''acc1''" "''tenant1''" "[]"] f r c
  show ?thesis
    by (auto simp: retrieveConnectionStringFromArm_def fetchConnectionStrings_def bind_io_Inl)
qed

section \<open>Facts about the registry\<close>

lemma connect_fails:
  "\<not> connectResolves d connStr \<Longrightarrow>
   connect d server connStr st =
     (None, st\<lparr> calls := calls st @ [MongoClientConnect connStr, ConsoleError] \<rparr>)"
  by (simp add: connect_def Let_def)

lemma connect_succeeds:
  "connectResolves d connStr \<Longrightarrow>
   connect d server connStr st =
     (Some (created st),
      st\<lparr> created := Suc (created st),
          mongoClients := (mongoClients st)(server \<mapsto> created st),
          calls := calls st @ [MongoClientConnect connStr, MapSet server (created st)] \<rparr>)"
  by (simp add: connect_def Let_def)

lemma connect_Some:
  "connect d server connStr st = (Some c, st') \<Longrightarrow>
   connectResolves d connStr \<and> c = created st \<and> mongoClients st' = (mongoClients st)(server \<mapsto> c)"
  by (cases "connectResolves d connStr") (auto simp: connect_fails connect_succeeds)

lemma disconnect_absent:
  "\<not> hasConnection st server \<Longrightarrow> disconnect d server st = (Inr (), st)"
  by (simp add: disconnect_def)

lemma disconnect_present:
  "mongoClients st server = Some c \<Longrightarrow>
   disconnect d server st =
     (close d c,
      st\<lparr> mongoClients := (mongoClients st)(server := None),
          closedClients := insert c (closedClients st),
          calls := calls st @ [MapDelete server, ClientClose c] \<rparr>)"
  by (simp add: disconnect_def hasConnection_def Let_def)

lemma reads_keep_registry:
  "mongoClients (snd (listDatabases d server st)) = mongoClients st"
  "mongoClients (snd (listCollections d server db st)) = mongoClients st"
  "mongoClients (snd (removeDatabase d server db st)) = mongoClients st"
  "mongoClients (snd (removeCollection d server db coll st)) = mongoClients st"
  by (simp_all add: listDatabases_def listCollections_def removeDatabase_def removeCollection_def
      split: option.splits)

lemma reads_keep_clients:
  "created (snd (listDatabases d server st)) = created st"
  "created (snd (listCollections d server db st)) = created st"
  "created (snd (removeDatabase d server db st)) = created st"
  "created (snd (removeCollection d server db coll st)) = created st"
  "closedClients (snd (listDatabases d server st)) = closedClients st"
  "closedClients (snd (listCollections d server db st)) = closedClients st"
  "closedClients (snd (removeDatabase d server db st)) = closedClients st"
  "closedClients (snd (removeCollection d server db coll st)) = closedClients st"
  by (simp_all add: listDatabases_def listCollections_def removeDatabase_def removeCollection_def
      split: option.splits)

lemma connect_keeps_others:
  "server \<noteq> k \<Longrightarrow> mongoClients (snd (connect d server connStr st)) k = mongoClients st k"
  by (cases "connectResolves d connStr") (simp_all add: connect_fails connect_succeeds)

lemma createMongoCollection_finish_state:
  "\<exists>tr. snd (createMongoCollection_finish d client db coll st) = st\<lparr> calls := tr \<rparr>"
proof (cases client)
  case None
  then have "snd (createMongoCollection_finish d client db coll st) = st\<lparr> calls := calls st \<rparr>"
    by (simp add: createMongoCollection_finish_def)
  then show ?thesis ..
next
  case (Some c)
  then have "snd (createMongoCollection_finish d client db coll st) =
             st\<lparr> calls := calls st @ [DbCreateCollection c db coll] \<rparr>"
    by (simp add: createMongoCollection_finish_def)
  then show ?thesis ..
qed

lemma createMongoCollection_begin_state:
  "\<exists>tr. step d (CreateMongoCollection server db coll) st = st\<lparr> calls := tr \<rparr>"
proof (cases "hasConnection st server")
  case True
  then show ?thesis
    using createMongoCollection_finish_state [of d "mongoClients st server" db coll st]
    by (simp add: createMongoCollection_begin_def)
next
  case False
  then have "step d (CreateMongoCollection server db coll) st = st\<lparr> calls := calls st \<rparr>"
    by (simp add: createMongoCollection_begin_def)
  then show ?thesis ..
qed

lemma createMongoCollection_resume_state:
  "\<exists>tr. snd (createMongoCollection_resume d server credential db coll st) = st\<lparr> calls := tr \<rparr> \<or>
     (\<exists>connStr. snd (createMongoCollection_resume d server credential db coll st) =
        (snd (connect d server connStr st))\<lparr> calls := tr \<rparr>)"
proof (cases credential)
  case (Inl e)
  then have "snd (createMongoCollection_resume d server credential db coll st) =
             st\<lparr> calls := calls st \<rparr>"
    by (simp add: createMongoCollection_resume_def)
  then show ?thesis by blast
next
  case (Inr connStr)
  obtain client st1 where c: "connect d server connStr st = (client, st1)"
    by (cases "connect d server connStr st")
  from createMongoCollection_finish_state [of d client db coll st1] obtain tr where
    "snd (createMongoCollection_finish d client db coll st1) = st1\<lparr> calls := tr \<rparr>" ..
  then have "snd (createMongoCollection_resume d server credential db coll st) =
             (snd (connect d server connStr st))\<lparr> calls := tr \<rparr>"
    using Inr c by (simp add: createMongoCollection_resume_def)
  then show ?thesis by blast
qed

text \<open>
  A run of the method with nothing in between is the history of its two moments, or of
  the first alone when the map has an entry.
\<close>

lemma createMongoCollection_as_history:
  "snd (createMongoCollection d server credential db coll st) =
     (if hasConnection st server then run [(d, CreateMongoCollection server db coll)] st
      else run [(d, CreateMongoCollection server db coll),
                (d, ResumeCreateMongoCollection server credential db coll)] st)"
  by (simp add: createMongoCollection_def createMongoCollection_begin_def)

lemma step_keeps_entry:
  assumes "\<not> writes k c" and "mongoClients st k = Some client"
  shows "mongoClients (step d c st) k = Some client"
proof (cases c)
  case (Connect server connStr)
  with assms(1) have "server \<noteq> k" by simp
  then show ?thesis using Connect assms(2) by (simp add: connect_keeps_others)
next
  case (Disconnect server)
  with assms(1) have "server \<noteq> k" by simp
  then show ?thesis using Disconnect assms(2)
    by (cases "mongoClients st server")
       (simp_all add: disconnect_absent disconnect_present hasConnection_def)
next
  case (CreateMongoCollection server db coll)
  from createMongoCollection_begin_state [of d server db coll st] obtain tr where
    "step d (CreateMongoCollection server db coll) st = st\<lparr> calls := tr \<rparr>" ..
  then show ?thesis using CreateMongoCollection assms(2) by simp
next
  case (ResumeCreateMongoCollection server credential db coll)
  with assms(1) have ne: "server \<noteq> k" by simp
  from createMongoCollection_resume_state [of d server credential db coll st] obtain tr where
    "snd (createMongoCollection_resume d server credential db coll st) = st\<lparr> calls := tr \<rparr> \<or>
     (\<exists>connStr. snd (createMongoCollection_resume d server credential db coll st) =
        (snd (connect d server connStr st))\<lparr> calls := tr \<rparr>)" ..
  then show ?thesis using ResumeCreateMongoCollection assms(2) ne
    by (auto simp: connect_keeps_others)
qed (simp_all add: reads_keep_registry assms(2))

lemma run_keeps_entry:
  "\<forall>dc \<in> set history. \<not> writes k (snd dc) \<Longrightarrow> mongoClients st k = Some client \<Longrightarrow>
   mongoClients (run history st) k = Some client"
  by (induction history arbitrary: st) (simp_all add: step_keeps_entry)

lemma registry_ok_new: "registry_ok newAppContext"
  by (simp add: registry_ok_def newAppContext_def)

lemma registry_okD:
  assumes "registry_ok st"
  shows "mongoClients st k = Some c \<Longrightarrow> c < created st"
    and "mongoClients st k = Some c \<Longrightarrow> c \<notin> closedClients st"
    and "c \<in> closedClients st \<Longrightarrow> c < created st"
    and "mongoClients st k = Some c \<Longrightarrow> mongoClients st k' = Some c \<Longrightarrow> k = k'"
  using assms unfolding registry_ok_def by blast+

lemma registry_ok_calls: "registry_ok (st\<lparr> calls := tr \<rparr>) = registry_ok st"
  by (simp add: registry_ok_def)

lemma registry_ok_connect:
  assumes ok: "registry_ok st"
  shows "registry_ok (snd (connect d server connStr st))"
proof (cases "connectResolves d connStr")
  case False
  then show ?thesis using ok by (simp add: connect_fails registry_ok_calls)
next
  case True
  let ?n = "created st"
  let ?m = "(mongoClients st)(server \<mapsto> ?n)"
  have fresh: "?n \<notin> closedClients st"
  proof
    assume "?n \<in> closedClients st"
    then have "?n < ?n" by (rule registry_okD(3) [OF ok])
    then show False by simp
  qed
  have unused: "mongoClients st k \<noteq> Some ?n" for k
  proof
    assume "mongoClients st k = Some ?n"
    then have "?n < ?n" by (rule registry_okD(1) [OF ok])
    then show False by simp
  qed
  have a: "c < Suc ?n \<and> c \<notin> closedClients st" if "?m k = Some c" for k c
  proof (cases "k = server")
    case True
    with that have "c = ?n" by simp
    then show ?thesis using fresh by simp
  next
    case False
    with that have old: "mongoClients st k = Some c" by simp
    from registry_okD(1) [OF ok old] registry_okD(2) [OF ok old] show ?thesis by simp
  qed
  have b: "c < Suc ?n" if "c \<in> closedClients st" for c
    using registry_okD(3) [OF ok that] by simp
  have c: "k = k'" if "?m k = Some c" and "?m k' = Some c" for k k' c
  proof (cases "k = server")
    case True
    with that(1) have "c = ?n" by simp
    with that(2) unused [of k'] have "k' = server" by (simp split: if_splits)
    with True show ?thesis by simp
  next
    case False
    with that(1) have old: "mongoClients st k = Some c" by simp
    with unused [of k] have "c \<noteq> ?n" by auto
    with that(2) have "mongoClients st k' = Some c" by (simp split: if_splits)
    with old show ?thesis by (rule registry_okD(4) [OF ok])
  qed
  have m: "mongoClients (snd (connect d server connStr st)) = ?m"
    and n: "created (snd (connect d server connStr st)) = Suc ?n"
    and cl: "closedClients (snd (connect d server connStr st)) = closedClients st"
    by (simp_all add: connect_succeeds [OF True])
  show ?thesis
    unfolding registry_ok_def m n cl
  proof (intro conjI allI impI)
    fix k c assume "?m k = Some c"
    then show "c < Suc ?n" and "c \<notin> closedClients st" using a by blast+
  next
    fix c assume "c \<in> closedClients st"
    then show "c < Suc ?n" by (rule b)
  next
    fix k k' c assume "?m k = Some c \<and> ?m k' = Some c"
    then show "k = k'" using c by blast
  qed
qed

lemma registry_ok_disconnect:
  assumes ok: "registry_ok st"
  shows "registry_ok (snd (disconnect d server st))"
proof (cases "mongoClients st server")
  case None
  then show ?thesis using ok by (simp add: disconnect_absent hasConnection_def)
next
  case (Some c0)
  let ?m = "(mongoClients st)(server := None)"
  have a: "c < created st \<and> c \<notin> insert c0 (closedClients st)" if "?m k = Some c" for k c
  proof -
    from that have ne: "k \<noteq> server" and old: "mongoClients st k = Some c"
      by (simp_all split: if_splits)
    have "c \<noteq> c0"
    proof
      assume "c = c0"
      with old Some have "k = server" by (auto intro: registry_okD(4) [OF ok])
      with ne show False by simp
    qed
    with registry_okD(1) [OF ok old] registry_okD(2) [OF ok old] show ?thesis by simp
  qed
  have b: "c < created st" if "c \<in> insert c0 (closedClients st)" for c
    using that registry_okD(3) [OF ok, of c] registry_okD(1) [OF ok Some] by auto
  have c: "k = k'" if "?m k = Some c" and "?m k' = Some c" for k k' c
  proof -
    from that have "mongoClients st k = Some c" and "mongoClients st k' = Some c"
      by (simp_all split: if_splits)
    then show ?thesis by (rule registry_okD(4) [OF ok])
  qed
  have m: "mongoClients (snd (disconnect d server st)) = ?m"
    and n: "created (snd (disconnect d server st)) = created st"
    and cl: "closedClients (snd (disconnect d server st)) = insert c0 (closedClients st)"
    by (simp_all add: disconnect_present [OF Some])
  show ?thesis
    unfolding registry_ok_def m n cl
  proof (intro conjI allI impI)
    fix k c assume "?m k = Some c"
    then show "c < created st" and "c \<notin> insert c0 (closedClients st)" using a by blast+
  next
    fix c assume "c \<in> insert c0 (closedClients st)"
    then show "c < created st" by (rule b)
  next
    fix k k' c assume "?m k = Some c \<and> ?m k' = Some c"
    then show "k = k'" using c by blast
  qed
qed

lemma registry_ok_step: "registry_ok st \<Longrightarrow> registry_ok (step d c st)"
proof (cases c)
  case (Connect server connStr)
  assume "registry_ok st"
  then show ?thesis using Connect by (simp add: registry_ok_connect)
next
  case (CreateMongoCollection server db coll)
  assume ok: "registry_ok st"
  from createMongoCollection_begin_state [of d server db coll st] obtain tr where
    "step d (CreateMongoCollection server db coll) st = st\<lparr> calls := tr \<rparr>" ..
  then show ?thesis using CreateMongoCollection ok by (simp add: registry_ok_calls)
next
  case (ResumeCreateMongoCollection server credential db coll)
  assume ok: "registry_ok st"
  from createMongoCollection_resume_state [of d server credential db coll st] obtain tr where
    "snd (createMongoCollection_resume d server credential db coll st) = st\<lparr> calls := tr \<rparr> \<or>
     (\<exists>connStr. snd (createMongoCollection_resume d server credential db coll st) =
        (snd (connect d server connStr st))\<lparr> calls := tr \<rparr>)" ..
  then show ?thesis using ResumeCreateMongoCollection ok registry_ok_connect [OF ok, of d server]
    by (auto simp: registry_ok_calls)
next
  case (Disconnect server)
  assume "registry_ok st"
  then show ?thesis using Disconnect by (simp add: registry_ok_disconnect)
qed (simp_all add: registry_ok_def reads_keep_registry reads_keep_clients)

lemma registry_ok_run: "registry_ok st \<Longrightarrow> registry_ok (run history st)"
  by (induction history arbitrary: st) (simp_all add: registry_ok_step)

subsection \<open>Connecting\<close>

text \<open>
  C5 (confirmed). When the driver cannot open the connection string, \<open>connect\<close> returns
  \<open>undefined\<close> (it has no outcome but a client or \<open>undefined\<close>: the \<open>catch\<close> covers the whole
  body) and leaves the registry as it was: the map, the clients created and the clients
  closed are unchanged, so \<open>hasConnection\<close> answers for every key what it answered before,
  and a key without an entry still has none.
\<close>

theorem failed_connect_leaves_registry:
  assumes "\<not> connectResolves d connStr"
  shows "fst (connect d server connStr st) = None \<and>
         mongoClients (snd (connect d server connStr st)) = mongoClients st \<and>
         created (snd (connect d server connStr st)) = created st \<and>
         closedClients (snd (connect d server connStr st)) = closedClients st \<and>
         (\<forall>k. hasConnection (snd (connect d server connStr st)) k = hasConnection st k)"
  using assms by (simp add: connect_fails hasConnection_def)

theorem failed_connect_leaves_registry_witness:
  "\<not> connectResolves exampleMongo ''mongodb://unreachable'' \<and>
   \<not> hasConnection newAppContext ''server1'' \<and>
   fst (connect exampleMongo ''server1'' ''mongodb://unreachable'' newAppContext) = None \<and>
   \<not> hasConnection (snd (connect exampleMongo ''server1'' ''mongodb://unreachable'' newAppContext))
       ''server1''"
proof -
  have h: "\<not> connectResolves exampleMongo ''mongodb://unreachable''"
    by (simp add: exampleMongo_def)
  have n: "\<not> hasConnection newAppContext ''server1''"
    by (simp add: hasConnection_def newAppContext_def)
  from failed_connect_leaves_registry [OF h, of "''server1''" newAppContext] h n
  show ?thesis by simp
qed

text \<open>
  C6 (confirmed). A \<open>connect\<close> for a key that returned the client \<open>c\<close> has opened a new
  client: \<open>c\<close> is the object created by this call, and the only changes of the state are
  that object, the entry of the key, now \<open>c\<close>, and the trace. So the key has an entry, it
  is the returned object, and the other keys are as they were. In a state a history has
  led to, \<open>c\<close> is not what the map held for the key (or for any key) before, so a prior
  entry is overwritten by a different object. The entry stays \<open>c\<close> along every history
  in which \<open>connect\<close> and \<open>disconnect\<close> are not performed for that key; another
  \<open>connect\<close> of the key replaces it by the next new client, and a \<open>disconnect\<close> of the
  key removes it.
\<close>

theorem connected_entry_is_stable:
  assumes "connect d server connStr st = (Some c, st')"
  shows "c = created st \<and>
         st' = st\<lparr> created := Suc (created st),
                    mongoClients := (mongoClients st)(server \<mapsto> c),
                    calls := calls st @ [MongoClientConnect connStr, MapSet server c] \<rparr> \<and>
         hasConnection st' server \<and> mongoClients st' server = Some c \<and>
         (\<forall>k. k \<noteq> server \<longrightarrow> mongoClients st' k = mongoClients st k) \<and>
         (registry_ok st \<longrightarrow>
            (\<forall>c0. mongoClients st server = Some c0 \<longrightarrow> c0 \<noteq> c) \<and>
            (\<forall>k. mongoClients st k \<noteq> Some c) \<and> c \<notin> closedClients st) \<and>
         (\<forall>history. (\<forall>dc \<in> set history. \<not> writes server (snd dc)) \<longrightarrow>
            hasConnection (run history st') server \<and>
            mongoClients (run history st') server = Some c) \<and>
         (\<forall>d2 connStr2 c2 st2. connect d2 server connStr2 st' = (Some c2, st2) \<longrightarrow>
            mongoClients st2 server = Some c2 \<and> c2 = Suc c) \<and>
         \<not> hasConnection (snd (disconnect d' server st')) server"
proof -
  from connect_Some [OF assms] have res: "connectResolves d connStr" and c: "c = created st"
    and m: "mongoClients st' = (mongoClients st)(server \<mapsto> c)"
    by simp_all
  from connect_succeeds [OF res, of server st] assms c
  have st': "st' = st\<lparr> created := Suc (created st),
                    mongoClients := (mongoClients st)(server \<mapsto> c),
                    calls := calls st @ [MongoClientConnect connStr, MapSet server c] \<rparr>"
    by simp
  from m have here: "mongoClients st' server = Some c" by simp
  have others: "\<forall>k. k \<noteq> server \<longrightarrow> mongoClients st' k = mongoClients st k"
    using m by simp
  have fresh: "registry_ok st \<longrightarrow>
            (\<forall>c0. mongoClients st server = Some c0 \<longrightarrow> c0 \<noteq> c) \<and>
            (\<forall>k. mongoClients st k \<noteq> Some c) \<and> c \<notin> closedClients st"
  proof
    assume ok: "registry_ok st"
    have a: "mongoClients st k \<noteq> Some c" for k
    proof
      assume "mongoClients st k = Some c"
      then have "c < created st" by (rule registry_okD(1) [OF ok])
      with c show False by simp
    qed
    have b: "c \<notin> closedClients st"
    proof
      assume "c \<in> closedClients st"
      then have "c < created st" by (rule registry_okD(3) [OF ok])
      with c show False by simp
    qed
    from a b show "(\<forall>c0. mongoClients st server = Some c0 \<longrightarrow> c0 \<noteq> c) \<and>
            (\<forall>k. mongoClients st k \<noteq> Some c) \<and> c \<notin> closedClients st"
      by blast
  qed
  have stable: "\<forall>history. (\<forall>dc \<in> set history. \<not> writes server (snd dc)) \<longrightarrow>
            hasConnection (run history st') server \<and>
            mongoClients (run history st') server = Some c"
    using run_keeps_entry [OF _ here] by (simp add: hasConnection_def)
  have again: "\<forall>d2 connStr2 c2 st2. connect d2 server connStr2 st' = (Some c2, st2) \<longrightarrow>
            mongoClients st2 server = Some c2 \<and> c2 = Suc c"
  proof (intro allI impI)
    fix d2 connStr2 c2 st2
    assume "connect d2 server connStr2 st' = (Some c2, st2)"
    from connect_Some [OF this] have "c2 = created st'"
      and "mongoClients st2 = (mongoClients st')(server \<mapsto> c2)" by simp_all
    moreover have "created st' = Suc c" by (subst st') (simp add: c)
    ultimately show "mongoClients st2 server = Some c2 \<and> c2 = Suc c" by simp
  qed
  have gone: "\<not> hasConnection (snd (disconnect d' server st')) server"
    by (simp add: disconnect_present [OF here] hasConnection_def)
  have has: "hasConnection st' server" using here by (simp add: hasConnection_def)
  from c st' has here others fresh stable again gone show ?thesis
    by (intro conjI)
qed

text \<open>
  The example: the key \<open>server1\<close> already holds client 0 when it is connected again; the
  new entry is client 1, and it is still client 1 after other calls.
\<close>

theorem connected_entry_is_stable_witness:
  "connect exampleMongo ''server1'' ''mongodb://one''
     \<lparr> mongoClients = [''server1'' \<mapsto> 0], created = 1, closedClients = {},
       calls = [MongoClientConnect ''mongodb://old'', MapSet ''server1'' 0] \<rparr> =
     (Some 1,
      \<lparr> mongoClients = [''server1'' \<mapsto> 1], created = 2, closedClients = {},
        calls = [MongoClientConnect ''mongodb://old'', MapSet ''server1'' 0,
                 MongoClientConnect ''mongodb://one'', MapSet ''server1'' 1] \<rparr>) \<and>
   registry_ok
     \<lparr> mongoClients = [''server1'' \<mapsto> 0], created = 1, closedClients = {},
       calls = [MongoClientConnect ''mongodb://old'', MapSet ''server1'' 0] \<rparr> \<and>
   mongoClients
     \<lparr> mongoClients = [''server1'' \<mapsto> 0], created = 1, closedClients = {},
       calls = [MongoClientConnect ''mongodb://old'', MapSet ''server1'' 0] \<rparr> ''server1'' = Some 0 \<and>
   (0::nat) \<noteq> 1 \<and>
   \<not> writes ''server1'' (ListDatabases ''server1'') \<and>
   \<not> writes ''server1'' (CreateMongoCollection ''server1'' (Some ''db1'') ''coll2'') \<and>
   \<not> writes ''server1''
       (ResumeCreateMongoCollection ''server2'' (Inr ''mongodb://two'') (Some ''db1'') ''coll2'') \<and>
   \<not> writes ''server1'' (Disconnect ''server2'') \<and>
   mongoClients
     (run [(exampleMongo, ListDatabases ''server1''),
           (exampleMongo, CreateMongoCollection ''server1'' (Some ''db1'') ''coll2''),
           (exampleMongo,
            ResumeCreateMongoCollection ''server2'' (Inr ''mongodb://two'') (Some ''db1'') ''coll2''),
           (exampleMongo, Disconnect ''server2'')]
        \<lparr> mongoClients = [''server1'' \<mapsto> 1], created = 2, closedClients = {},
          calls = [MongoClientConnect ''mongodb://old'', MapSet ''server1'' 0,
                   MongoClientConnect ''mongodb://one'', MapSet ''server1'' 1] \<rparr>)
     ''server1'' = Some 1"
proof -
  let ?st = "\<lparr> mongoClients = [''server1'' \<mapsto> 0::nat], created = 1, closedClients = {},
       calls = [MongoClientConnect ''mongodb://old'', MapSet ''server1'' 0] \<rparr>"
  let ?st' = "\<lparr> mongoClients = [''server1'' \<mapsto> 1::nat], created = 2, closedClients = {},
        calls = [MongoClientConnect ''mongodb://old'', MapSet ''server1'' 0,
                 MongoClientConnect ''mongodb://one'', MapSet ''server1'' 1] \<rparr>"
  let ?h = "[(exampleMongo, ListDatabases ''server1''),
           (exampleMongo, CreateMongoCollection ''server1'' (Some ''db1'') ''coll2''),
           (exampleMongo,
            ResumeCreateMongoCollection ''server2'' (Inr ''mongodb://two'') (Some ''db1'') ''coll2''),
           (exampleMongo, Disconnect ''server2'')]"
  have c: "connect exampleMongo ''server1'' ''mongodb://one'' ?st = (Some 1, ?st')"
    by (simp add: connect_def exampleMongo_def Let_def)
  have "run [(exampleMongo, Connect ''server1'' ''mongodb://old'')] newAppContext = ?st"
    by (simp add: connect_def exampleMongo_def newAppContext_def Let_def)
  then have ok: "registry_ok ?st"
    using registry_ok_run [OF registry_ok_new,
        of "[(exampleMongo, Connect ''server1'' ''mongodb://old'')]"]
    by (rule subst)
  have prior: "mongoClients ?st ''server1'' = Some 0" by simp
  have w: "\<not> writes ''server1'' (ListDatabases ''server1'')"
    "\<not> writes ''server1'' (CreateMongoCollection ''server1'' (Some ''db1'') ''coll2'')"
    "\<not> writes ''server1''
       (ResumeCreateMongoCollection ''server2'' (Inr ''mongodb://two'') (Some ''db1'') ''coll2'')"
    "\<not> writes ''server1'' (Disconnect ''server2'')"
    by simp_all
  then have nw: "\<forall>dc \<in> set ?h. \<not> writes ''server1'' (snd dc)"
    by simp
  note th = connected_entry_is_stable [OF c, of exampleMongo]
  note fresh = th [THEN conjunct2, THEN conjunct2, THEN conjunct2, THEN conjunct2, THEN conjunct2,
      THEN conjunct1, THEN mp, OF ok, THEN conjunct1, THEN spec, THEN mp, OF prior]
  note stable = th [THEN conjunct2, THEN conjunct2, THEN conjunct2, THEN conjunct2, THEN conjunct2,
      THEN conjunct2, THEN conjunct1, THEN spec, THEN mp, OF nw, THEN conjunct2]
  from c ok prior fresh w stable show ?thesis by (intro conjI)
qed

subsection \<open>Disconnecting\<close>

text \<open>
  C9 (confirmed). \<open>disconnect\<close> of a key without an entry resolves and changes nothing.
  \<open>disconnect\<close> of a key whose entry is \<open>c\<close> deletes the entry and then calls \<open>close()\<close> on
  \<open>c\<close>, in that order, and returns what \<open>close()\<close> returns. After every history of calls
  on a new \<open>AppContext\<close>, no entry of the map is a client that was closed.
\<close>

theorem disconnect_removes_then_releases:
  "(\<not> hasConnection st server \<longrightarrow> disconnect d server st = (Inr (), st)) \<and>
   (mongoClients st server = Some c \<longrightarrow>
      disconnect d server st =
        (close d c,
         st\<lparr> mongoClients := (mongoClients st)(server := None),
             closedClients := insert c (closedClients st),
             calls := calls st @ [MapDelete server, ClientClose c] \<rparr>)) \<and>
   (\<forall>k c'. mongoClients (run history newAppContext) k = Some c' \<longrightarrow>
      c' \<notin> closedClients (run history newAppContext))"
proof (intro conjI impI allI)
  assume "\<not> hasConnection st server"
  then show "disconnect d server st = (Inr (), st)" by (rule disconnect_absent)
next
  assume "mongoClients st server = Some c"
  then show "disconnect d server st =
        (close d c,
         st\<lparr> mongoClients := (mongoClients st)(server := None),
             closedClients := insert c (closedClients st),
             calls := calls st @ [MapDelete server, ClientClose c] \<rparr>)"
    by (rule disconnect_present)
next
  fix k c'
  assume "mongoClients (run history newAppContext) k = Some c'"
  moreover have "registry_ok (run history newAppContext)"
    using registry_ok_new by (rule registry_ok_run)
  ultimately show "c' \<notin> closedClients (run history newAppContext)"
    by (rule registry_okD(2) [rotated])
qed


theorem disconnect_removes_then_releases_witness:
  "\<not> hasConnection newAppContext ''server1'' \<and>
   disconnect exampleMongo ''server1'' newAppContext = (Inr (), newAppContext) \<and>
   mongoClients
     \<lparr> mongoClients = [''server1'' \<mapsto> 0], created = 1, closedClients = {},
       calls = [MongoClientConnect ''mongodb://one'', MapSet ''server1'' 0] \<rparr> ''server1'' = Some 0 \<and>
   disconnect exampleMongo ''server1''
     \<lparr> mongoClients = [''server1'' \<mapsto> 0], created = 1, closedClients = {},
       calls = [MongoClientConnect ''mongodb://one'', MapSet ''server1'' 0] \<rparr> =
     (Inr (),
      \<lparr> mongoClients = [''server1'' \<mapsto> 0](''server1'' := None), created = 1, closedClients = {0},
        calls = [MongoClientConnect ''mongodb://one'', MapSet ''server1'' 0,
                 MapDelete ''server1'', ClientClose 0] \<rparr>) \<and>
   mongoClients
     (run [(exampleMongo, Connect ''server1'' ''mongodb://one''),
           (exampleMongo, Disconnect ''server1''),
           (exampleMongo, Connect ''server1'' ''mongodb://one'')] newAppContext) ''server1''
     = Some 1 \<and>
   1 \<notin> closedClients
     (run [(exampleMongo, Connect ''server1'' ''mongodb://one''),
           (exampleMongo, Disconnect ''server1''),
           (exampleMongo, Connect ''server1'' ''mongodb://one'')] newAppContext)"
proof -
  let ?st = "\<lparr> mongoClients = [''server1'' \<mapsto> 0::nat], created = 1, closedClients = {},
       calls = [MongoClientConnect ''mongodb://one'', MapSet ''server1'' 0] \<rparr>"
  let ?h = "[(exampleMongo, Connect ''server1'' ''mongodb://one''),
           (exampleMongo, Disconnect ''server1''),
           (exampleMongo, Connect ''server1'' ''mongodb://one'')]"
  have a: "\<not> hasConnection newAppContext ''server1''"
    by (simp add: hasConnection_def newAppContext_def)
  have p: "mongoClients ?st ''server1'' = Some 0"
    by simp
  have r: "mongoClients (run ?h newAppContext) ''server1'' = Some 1"
    by (simp add: connect_def disconnect_def hasConnection_def exampleMongo_def newAppContext_def
        Let_def)
  have 1: "disconnect exampleMongo ''server1'' newAppContext = (Inr (), newAppContext)"
    using disconnect_removes_then_releases
      [of newAppContext "''server1''" exampleMongo 0 ?h, THEN conjunct1] a
    by (rule mp)
  have "disconnect exampleMongo ''server1'' ?st =
        (close exampleMongo 0,
         ?st\<lparr> mongoClients := (mongoClients ?st)(''server1'' := None),
              closedClients := insert 0 (closedClients ?st),
              calls := calls ?st @ [MapDelete ''server1'', ClientClose 0] \<rparr>)"
    using disconnect_removes_then_releases
      [of ?st "''server1''" exampleMongo 0 ?h, THEN conjunct2, THEN conjunct1] p
    by (rule mp)
  then have 2: "disconnect exampleMongo ''server1'' ?st =
     (Inr (),
      \<lparr> mongoClients = [''server1'' \<mapsto> 0](''server1'' := None), created = 1, closedClients = {0},
        calls = [MongoClientConnect ''mongodb://one'', MapSet ''server1'' 0,
                 MapDelete ''server1'', ClientClose 0] \<rparr>)"
    by (simp add: exampleMongo_def)
  have 3: "1 \<notin> closedClients (run ?h newAppContext)"
    using disconnect_removes_then_releases
      [of newAppContext "''server1''" exampleMongo 0 ?h, THEN conjunct2, THEN conjunct2,
       THEN spec, THEN spec, THEN mp, OF r] .
  from a 1 p 2 r 3 show ?thesis by (intro conjI)
qed

subsection \<open>Data access without a connection\<close>

text \<open>
  C10 (confirmed). For a key without an entry, \<open>listDatabases\<close> and \<open>listCollections\<close>
  resolve to the empty list and \<open>removeDatabase\<close> and \<open>removeCollection\<close> to \<open>false\<close>; the
  state after each is the state before, so the driver was not called and the map was
  not written.
\<close>

theorem absent_key_degrades_gracefully:
  assumes "\<not> hasConnection st server"
  shows "listDatabases d server st = (Inr [], st) \<and>
         listCollections d server db st = (Inr [], st) \<and>
         removeDatabase d server db st = (Inr False, st) \<and>
         removeCollection d server db coll st = (Inr False, st)"
  using assms
  by (simp add: listDatabases_def listCollections_def removeDatabase_def removeCollection_def)

theorem absent_key_degrades_gracefully_witness:
  "\<not> hasConnection newAppContext ''server1'' \<and>
   listDatabases exampleMongo ''server1'' newAppContext = (Inr [], newAppContext) \<and>
   listCollections exampleMongo ''server1'' ''db1'' newAppContext = (Inr [], newAppContext) \<and>
   removeDatabase exampleMongo ''server1'' ''db1'' newAppContext = (Inr False, newAppContext) \<and>
   removeCollection exampleMongo ''server1'' ''db1'' ''coll1'' newAppContext =
     (Inr False, newAppContext)"
proof -
  have a: "\<not> hasConnection newAppContext ''server1''"
    by (simp add: hasConnection_def newAppContext_def)
  from absent_key_degrades_gracefully [OF a, of exampleMongo "''db1''" "''coll1''"] a
  show ?thesis by simp
qed

end
